theory Spec2Isabelle
  imports Main
begin

section \<open>Python values shared by the two backends\<close>

text \<open>
  The repository has two backends for the same operations: \<^verbatim>\<open>main.py\<close>, the FastAPI
  routes over an in-memory dataset (the mock path), and \<^verbatim>\<open>blockchain_service.py\<close>, the
  web3 client of the deployed contracts (the ledger path). Exceptions are values:
  every handler returns \<open>exception + 'a\<close>, \<open>Inl\<close> being the exception that escapes.
\<close>

datatype exception =
    HTTPException nat string
  | Exception string
  | IndexError string
  | KeyError string
  | ValueError string
  | TypeError string
  | AttributeError string
  | OtherError string

text \<open>
  \<open>HTTPException status_code detail\<close> is FastAPI's; \<open>Exception msg\<close> is the bare
  \<^verbatim>\<open>raise Exception("...")\<close> of the service; \<open>OtherError\<close> stands for whatever a
  library call raises (web3, the node, \<^verbatim>\<open>datetime\<close>), carrying its \<^verbatim>\<open>str(e)\<close>.
\<close>

subsection \<open>Formatting integers as Python's format specs do\<close>

definition digit_char :: "nat \<Rightarrow> char" where
  "digit_char d = ''0123456789abcdef'' ! d"

function digits :: "nat \<Rightarrow> nat \<Rightarrow> string" where
  "digits b n =
     (if b < 2 \<or> n < b then [digit_char n]
      else digits b (n div b) @ [digit_char (n mod b)])"
  by pat_completeness auto
termination
  by (relation "measure snd") auto

declare digits.simps [simp del]

text \<open>
  \<open>py_format b w x\<close> is \<^verbatim>\<open>f"{x:0{w}d}"\<close> for \<open>b = 10\<close> and \<^verbatim>\<open>f"{x:0{w}x}"\<close> for
  \<open>b = 16\<close>: the sign first, then zeros up to the width, then the digits.
  \<open>py_str_int\<close> is \<^verbatim>\<open>str(x)\<close>, the same with no padding.
\<close>

definition py_format :: "nat \<Rightarrow> nat \<Rightarrow> int \<Rightarrow> string" where
  "py_format b w x =
     (let ds = digits b (nat \<bar>x\<bar>) in
      if x < 0 then CHR ''-'' # replicate (w - 1 - length ds) (CHR ''0'') @ ds
      else replicate (w - length ds) (CHR ''0'') @ ds)"

definition py_str_int :: "int \<Rightarrow> string" where
  "py_str_int x = py_format 10 0 x"

text \<open>
  \<^verbatim>\<open>str(e)\<close>: Starlette's \<^verbatim>\<open>HTTPException.__str__\<close> gives
  \<^verbatim>\<open>f"{status_code}: {detail}"\<close>; the other exceptions carry their message.
\<close>

fun str_exc :: "exception \<Rightarrow> string" where
  "str_exc (HTTPException c d) = py_str_int (int c) @ '': '' @ d"
| "str_exc (Exception m) = m"
| "str_exc (IndexError m) = m"
| "str_exc (KeyError m) = m"
| "str_exc (ValueError m) = m"
| "str_exc (TypeError m) = m"
| "str_exc (AttributeError m) = m"
| "str_exc (OtherError m) = m"

text \<open>
  Every route body is wrapped in
  \<^verbatim>\<open>try: ... except Exception as e: raise HTTPException(status_code=c, detail=f"{prefix}{str(e)}")\<close>.
  \<^verbatim>\<open>HTTPException\<close> is a subclass of \<^verbatim>\<open>Exception\<close>, so the handler also catches the
  \<^verbatim>\<open>HTTPException\<close>s the body raises itself.
\<close>

definition reraise_as :: "nat \<Rightarrow> string \<Rightarrow> exception + 'a \<Rightarrow> exception + 'a" where
  "reraise_as c prefix r =
     (case r of
        Inl e \<Rightarrow> Inl (HTTPException c (prefix @ str_exc e))
      | Inr v \<Rightarrow> Inr v)"

definition query_failed :: "exception + 'a \<Rightarrow> exception + 'a" where
  "query_failed r = reraise_as 500 ''Blockchain query failed: '' r"

definition transaction_failed :: "exception + 'a \<Rightarrow> exception + 'a" where
  "transaction_failed r = reraise_as 400 ''Blockchain transaction failed: '' r"

text \<open>Sequencing of steps that may raise: the first exception ends the sequence.\<close>

definition on_value :: "exception + 'a \<Rightarrow> ('a \<Rightarrow> exception + 'b) \<Rightarrow> exception + 'b" where
  "on_value r f = (case r of Inl e \<Rightarrow> Inl e | Inr v \<Rightarrow> f v)"

subsection \<open>models.py\<close>

datatype MedicineStatus =
    MANUFACTURED
  | SHIPPED_TO_DISTRIBUTOR
  | RECEIVED_BY_DISTRIBUTOR
  | SHIPPED_TO_PHARMACY
  | RECEIVED_BY_PHARMACY
  | SOLD_TO_PATIENT
  | EXPIRED
  | RECALLED

fun status_value :: "MedicineStatus \<Rightarrow> string" where
  "status_value MANUFACTURED = ''MANUFACTURED''"
| "status_value SHIPPED_TO_DISTRIBUTOR = ''SHIPPED_TO_DISTRIBUTOR''"
| "status_value RECEIVED_BY_DISTRIBUTOR = ''RECEIVED_BY_DISTRIBUTOR''"
| "status_value SHIPPED_TO_PHARMACY = ''SHIPPED_TO_PHARMACY''"
| "status_value RECEIVED_BY_PHARMACY = ''RECEIVED_BY_PHARMACY''"
| "status_value SOLD_TO_PATIENT = ''SOLD_TO_PATIENT''"
| "status_value EXPIRED = ''EXPIRED''"
| "status_value RECALLED = ''RECALLED''"

definition all_statuses :: "MedicineStatus list" where
  "all_statuses =
     [MANUFACTURED, SHIPPED_TO_DISTRIBUTOR, RECEIVED_BY_DISTRIBUTOR, SHIPPED_TO_PHARMACY,
      RECEIVED_BY_PHARMACY, SOLD_TO_PATIENT, EXPIRED, RECALLED]"

record MedicineCreate =
  mc_name :: string
  mc_batchNumber :: string
  mc_expiryDate :: int
  mc_temperatureThreshold :: int
  mc_temperatureSensitive :: bool

record MedicineTransfer =
  toAddress :: string
  newStatus :: MedicineStatus
  tr_location :: string
  recipientName :: "string option"

section \<open>The mock path: main.py\<close>

subsection \<open>The in-memory dataset\<close>

text \<open>
  A medicine is the dict stored in \<^verbatim>\<open>BLOCKCHAIN_MEDICINES\<close>; \<open>med_id\<close> is its key
  \<^verbatim>\<open>"id"\<close>. The seeded dicts have no \<^verbatim>\<open>currentOwnerName\<close> and \<^verbatim>\<open>statusFormatted\<close>
  keys, the dicts that \<^verbatim>\<open>create_medicine\<close> and \<^verbatim>\<open>transfer_medicine\<close> write have them:
  these two are optional. \<^verbatim>\<open>MedicineResponse\<close> has the same fields.
\<close>

record medicine =
  med_id :: int
  name :: string
  batchNumber :: string
  manufactureDate :: int
  expiryDate :: int
  manufacturer :: string
  currentOwner :: string
  status :: string
  temperatureThreshold :: int
  temperatureSensitive :: bool
  isActive :: bool
  blockchainTxHash :: string
  blockNumber :: int
  gasUsed :: int
  currentOwnerName :: "string option"
  statusFormatted :: "string option"

type_synonym MedicineResponse = medicine

record temperature_reading =
  temperature :: string
  t_timestamp :: int
  t_txHash :: string

record location_entry =
  location :: string
  l_timestamp :: int
  l_txHash :: string

record stage_entry =
  stage :: string
  s_location :: string
  owner :: string
  s_timestamp :: int
  s_txHash :: string
  s_recipientName :: "string option"
  pharmacyName :: "string option"
  distributorName :: "string option"
  patientName :: "string option"

text \<open>The module's global mutable state, passed explicitly.\<close>

record store =
  BLOCKCHAIN_MEDICINES :: "medicine list"
  BLOCKCHAIN_TEMPERATURE_DATA :: "int \<rightharpoonup> temperature_reading list"
  BLOCKCHAIN_LOCATION_DATA :: "int \<rightharpoonup> location_entry list"
  BLOCKCHAIN_STAGES_DATA :: "int \<rightharpoonup> stage_entry list"

subsection \<open>The name tables\<close>

definition addr_manufacturer :: string where
  "addr_manufacturer = ''0xf39Fd6e51aad88F6F4ce6aB8827279cffFb92266''"

definition addr_distributor :: string where
  "addr_distributor = ''0x70997970C51812dc3A010C7d01b50e0d17dc79C8''"

definition addr_pharmacy :: string where
  "addr_pharmacy = ''0x3C44CdDdB6a900fa2b585dd299e03d12FA4293BC''"

definition addr_patient1 :: string where
  "addr_patient1 = ''0x90F79bf6EB2c4f870365E785982E1f101E93b906''"

definition addr_patient2 :: string where
  "addr_patient2 = ''0x15d34AAf54267DB7D7c367839AAf71A00a2C6A65''"

definition OWNER_NAMES :: "(string \<times> string) list" where
  "OWNER_NAMES =
     [(addr_manufacturer, ''MediPharm Manufacturing Co.''),
      (addr_distributor, ''Global Distributors Ltd.''),
      (addr_pharmacy, ''CITY Engg Pharmacy''),
      (addr_patient1, ''John Smith (Patient)''),
      (addr_patient2, ''Sarah Johnson (Patient)'')]"

definition PHARMACY_NAMES :: "(string \<times> string) list" where
  "PHARMACY_NAMES =
     [(addr_pharmacy, ''CITY Engg Pharmacy''),
      (addr_distributor, ''Global Distributors Ltd.'')]"

definition DISTRIBUTOR_NAMES :: "(string \<times> string) list" where
  "DISTRIBUTOR_NAMES = [(addr_distributor, ''Global Distributors Ltd.'')]"

definition PATIENT_NAMES :: "(string \<times> string) list" where
  "PATIENT_NAMES =
     [(addr_patient1, ''John Smith''),
      (addr_patient2, ''Sarah Johnson'')]"

text \<open>\<^verbatim>\<open>d.get(k, default)\<close> and \<^verbatim>\<open>a or b\<close> on an optional string.\<close>

definition dict_get :: "(string \<times> string) list \<Rightarrow> string \<Rightarrow> string \<Rightarrow> string" where
  "dict_get d k dflt = (case map_of d k of None \<Rightarrow> dflt | Some v \<Rightarrow> v)"

definition truthy :: "string option \<Rightarrow> bool" where
  "truthy r = (case r of None \<Rightarrow> False | Some s \<Rightarrow> s \<noteq> [])"

definition py_or :: "string option \<Rightarrow> string \<Rightarrow> string" where
  "py_or r dflt = (case r of None \<Rightarrow> dflt | Some s \<Rightarrow> if s = [] then dflt else s)"

definition format_status_with_recipient :: "string \<Rightarrow> string \<Rightarrow> string option \<Rightarrow> string" where
  "format_status_with_recipient st owner_address recipient_name =
     (if st = ''SHIPPED_TO_PHARMACY'' then
        ''Shipped to '' @ py_or recipient_name (dict_get PHARMACY_NAMES owner_address ''Pharmacy'')
      else if st = ''RECEIVED_BY_PHARMACY'' then
        ''Received by '' @ py_or recipient_name (dict_get PHARMACY_NAMES owner_address ''Pharmacy'')
      else if st = ''SHIPPED_TO_DISTRIBUTOR'' then
        ''Shipped to '' @ py_or recipient_name (dict_get DISTRIBUTOR_NAMES owner_address ''Distributor'')
      else if st = ''RECEIVED_BY_DISTRIBUTOR'' then
        ''Received by '' @ py_or recipient_name (dict_get DISTRIBUTOR_NAMES owner_address ''Distributor'')
      else if st = ''SOLD_TO_PATIENT'' then
        ''Sold to '' @ py_or recipient_name (dict_get PATIENT_NAMES owner_address ''Patient'')
      else
        dict_get
          [(''MANUFACTURED'', ''Manufactured''), (''EXPIRED'', ''Expired''), (''RECALLED'', ''Recalled'')]
          st st)"

subsection \<open>Read routes\<close>

text \<open>
  \<^verbatim>\<open>medicine.copy()\<close> with the two display fields set, validated as a
  \<^verbatim>\<open>MedicineResponse\<close>.
\<close>

definition with_names :: "medicine \<Rightarrow> MedicineResponse" where
  "with_names m =
     m\<lparr>currentOwnerName := Some (dict_get OWNER_NAMES (currentOwner m) ''Unknown''),
       statusFormatted := Some (format_status_with_recipient (status m) (currentOwner m) None)\<rparr>"

definition get_medicines :: "store \<Rightarrow> exception + MedicineResponse list" where
  "get_medicines s =
     query_failed (Inr (map with_names (filter isActive (BLOCKCHAIN_MEDICINES s))))"

definition get_medicine :: "store \<Rightarrow> int \<Rightarrow> exception + MedicineResponse" where
  "get_medicine s medicine_id =
     query_failed
       (case find (\<lambda>m. med_id m = medicine_id \<and> isActive m) (BLOCKCHAIN_MEDICINES s) of
          None \<Rightarrow> Inl (HTTPException 404 ''Medicine not found on blockchain'')
        | Some m \<Rightarrow> Inr (with_names m))"

record BatchResponse =
  br_batchNumber :: string
  medicines :: "MedicineResponse list"

definition get_medicines_by_batch :: "store \<Rightarrow> string \<Rightarrow> exception + BatchResponse" where
  "get_medicines_by_batch s batch_number =
     query_failed
       (Inr \<lparr>br_batchNumber = batch_number,
             medicines =
               map with_names
                 (filter (\<lambda>m. batchNumber m = batch_number \<and> isActive m) (BLOCKCHAIN_MEDICINES s))\<rparr>)"

record TemperatureHistoryResponse =
  temperatures :: "string list"
  timestamps :: "int list"
  transactionHashes :: "string list"

record LocationHistoryResponse =
  locations :: "string list"
  lh_timestamps :: "int list"
  lh_transactionHashes :: "string list"

definition get_temperature_history :: "store \<Rightarrow> int \<Rightarrow> exception + TemperatureHistoryResponse" where
  "get_temperature_history s medicine_id =
     query_failed
       (case BLOCKCHAIN_TEMPERATURE_DATA s medicine_id of
          None \<Rightarrow> Inr \<lparr>temperatures = [], timestamps = [], transactionHashes = []\<rparr>
        | Some data \<Rightarrow>
            Inr \<lparr>temperatures = map temperature data,
                 timestamps = map t_timestamp data,
                 transactionHashes = map t_txHash data\<rparr>)"

definition get_location_history :: "store \<Rightarrow> int \<Rightarrow> exception + LocationHistoryResponse" where
  "get_location_history s medicine_id =
     query_failed
       (case BLOCKCHAIN_LOCATION_DATA s medicine_id of
          None \<Rightarrow> Inr \<lparr>locations = [], lh_timestamps = [], lh_transactionHashes = []\<rparr>
        | Some data \<Rightarrow>
            Inr \<lparr>locations = map location data,
                 lh_timestamps = map l_timestamp data,
                 lh_transactionHashes = map l_txHash data\<rparr>)"

subsection \<open>Write routes\<close>

text \<open>The JSON object a write route returns; keys a route does not set are \<open>None\<close>.\<close>

record tx_result =
  success :: bool
  transaction_hash :: string
  block_number :: "int option"
  gas_used :: "int option"
  reason :: "string option"
  message :: string

text \<open>\<^verbatim>\<open>max(xs)\<close> of a non-empty list; \<^verbatim>\<open>create_medicine\<close> guards the empty case.\<close>

definition py_max :: "int list \<Rightarrow> int" where
  "py_max xs = fold max (tl xs) (hd xs)"

text \<open>
  \<^verbatim>\<open>next((m for m in BLOCKCHAIN_MEDICINES if p(m)), None)\<close> is \<open>find p\<close>; the write
  routes then assign to keys of the dict found, which is the first element of the list
  that satisfies \<open>p\<close>.
\<close>

fun update_first :: "('a \<Rightarrow> bool) \<Rightarrow> ('a \<Rightarrow> 'a) \<Rightarrow> 'a list \<Rightarrow> 'a list" where
  "update_first p f [] = []"
| "update_first p f (x # xs) = (if p x then f x # xs else x # update_first p f xs)"

text \<open>
  \<^verbatim>\<open>create_medicine\<close>. \<open>now\<close> is \<^verbatim>\<open>int(datetime.now().timestamp())\<close>;
  \<open>fromtimestamp_raises t\<close> is \<open>Some msg\<close> when \<^verbatim>\<open>datetime.fromtimestamp(t)\<close> raises
  (a timestamp outside the platform's range), which happens before anything is stored.
\<close>

definition create_medicine ::
  "(int \<Rightarrow> string option) \<Rightarrow> int \<Rightarrow> store \<Rightarrow> MedicineCreate \<Rightarrow> (exception + MedicineResponse) \<times> store" where
  "create_medicine fromtimestamp_raises now s mc =
     (let new_id =
            (if BLOCKCHAIN_MEDICINES s = [] then 1
             else py_max (map med_id (BLOCKCHAIN_MEDICINES s)) + 1)
      in
        case fromtimestamp_raises (mc_expiryDate mc) of
          Some msg \<Rightarrow> (transaction_failed (Inl (OtherError msg)), s)
        | None \<Rightarrow>
            let manufacturer_address = ''0xf39Fd6e51aad88F6F4ce6aB8827279cffFb92266'';
                current_time = now;
                new_medicine =
                  \<lparr>med_id = new_id,
                   name = mc_name mc,
                   batchNumber = mc_batchNumber mc,
                   manufactureDate = current_time,
                   expiryDate = mc_expiryDate mc,
                   manufacturer = manufacturer_address,
                   currentOwner = manufacturer_address,
                   status = ''MANUFACTURED'',
                   temperatureThreshold = mc_temperatureThreshold mc,
                   temperatureSensitive = mc_temperatureSensitive mc,
                   isActive = True,
                   blockchainTxHash = ''0x'' @ py_format 16 40 new_id,
                   blockNumber = 1000 + new_id,
                   gasUsed = 150000,
                   currentOwnerName = Some (dict_get OWNER_NAMES manufacturer_address ''Unknown''),
                   statusFormatted =
                     Some (format_status_with_recipient ''MANUFACTURED'' manufacturer_address None)\<rparr>
            in
              (transaction_failed (Inr new_medicine),
               s\<lparr>BLOCKCHAIN_MEDICINES := BLOCKCHAIN_MEDICINES s @ [new_medicine],
                 BLOCKCHAIN_STAGES_DATA :=
                   (BLOCKCHAIN_STAGES_DATA s)(new_id \<mapsto>
                     [\<lparr>stage = ''MANUFACTURED'',
                       s_location = ''Manufacturing Plant A'',
                       owner = manufacturer_address,
                       s_timestamp = current_time,
                       s_txHash = ''0x'' @ py_format 16 40 new_id,
                       s_recipientName = None,
                       pharmacyName = None,
                       distributorName = None,
                       patientName = None\<rparr>]),
                 BLOCKCHAIN_LOCATION_DATA :=
                   (BLOCKCHAIN_LOCATION_DATA s)(new_id \<mapsto>
                     [\<lparr>location = ''Manufacturing Plant A'',
                       l_timestamp = current_time,
                       l_txHash = ''0xloc'' @ py_format 10 5 new_id\<rparr>])\<rparr>))"

text \<open>
  \<^verbatim>\<open>transfer_medicine\<close>. The lookup is by id alone. \<open>now_stage\<close> and \<open>now_loc\<close> are the
  two \<^verbatim>\<open>datetime.now()\<close> readings, for the stage and for the location entry.
\<close>

definition transferred :: "int \<Rightarrow> MedicineTransfer \<Rightarrow> medicine \<Rightarrow> medicine" where
  "transferred medicine_id transfer m =
     m\<lparr>currentOwner := toAddress transfer,
       status := status_value (newStatus transfer),
       currentOwnerName := Some (dict_get OWNER_NAMES (toAddress transfer) ''Unknown''),
       statusFormatted :=
         Some (format_status_with_recipient (status_value (newStatus transfer))
                 (toAddress transfer) (recipientName transfer)),
       blockchainTxHash := ''0xtransfer'' @ py_format 16 40 medicine_id,
       blockNumber := 2000 + medicine_id,
       gasUsed := 120000\<rparr>"

definition new_stage_of :: "MedicineTransfer \<Rightarrow> int \<Rightarrow> string \<Rightarrow> stage_entry" where
  "new_stage_of transfer now_stage tx_hash =
     (let base =
            \<lparr>stage = status_value (newStatus transfer),
             s_location = tr_location transfer,
             owner = toAddress transfer,
             s_timestamp = now_stage,
             s_txHash = tx_hash,
             s_recipientName =
               (if truthy (recipientName transfer) then recipientName transfer else None),
             pharmacyName = None,
             distributorName = None,
             patientName = None\<rparr>
      in
        if newStatus transfer \<in> {SHIPPED_TO_PHARMACY, RECEIVED_BY_PHARMACY} then
          base\<lparr>pharmacyName :=
            Some (py_or (recipientName transfer)
                    (dict_get PHARMACY_NAMES (toAddress transfer) ''Pharmacy''))\<rparr>
        else if newStatus transfer \<in> {SHIPPED_TO_DISTRIBUTOR, RECEIVED_BY_DISTRIBUTOR} then
          base\<lparr>distributorName :=
            Some (py_or (recipientName transfer)
                    (dict_get DISTRIBUTOR_NAMES (toAddress transfer) ''Distributor''))\<rparr>
        else if newStatus transfer = SOLD_TO_PATIENT then
          base\<lparr>patientName :=
            Some (py_or (recipientName transfer)
                    (dict_get PATIENT_NAMES (toAddress transfer) ''Patient''))\<rparr>
        else base)"

definition entries :: "(int \<rightharpoonup> 'a list) \<Rightarrow> int \<Rightarrow> 'a list" where
  "entries d k = (case d k of None \<Rightarrow> [] | Some xs \<Rightarrow> xs)"

definition transfer_medicine ::
  "int \<Rightarrow> int \<Rightarrow> store \<Rightarrow> int \<Rightarrow> MedicineTransfer \<Rightarrow> (exception + tx_result) \<times> store" where
  "transfer_medicine now_stage now_loc s medicine_id transfer =
     (case find (\<lambda>m. med_id m = medicine_id) (BLOCKCHAIN_MEDICINES s) of
        None \<Rightarrow>
          (transaction_failed (Inl (HTTPException 404 ''Medicine not found on blockchain'')), s)
      | Some medicine0 \<Rightarrow>
          let medicine = transferred medicine_id transfer medicine0;
              stages = entries (BLOCKCHAIN_STAGES_DATA s) medicine_id;
              new_stage = new_stage_of transfer now_stage (blockchainTxHash medicine);
              locs = entries (BLOCKCHAIN_LOCATION_DATA s) medicine_id;
              new_location =
                \<lparr>location = tr_location transfer,
                 l_timestamp = now_loc,
                 l_txHash =
                   ''0xloc'' @ py_format 10 5 medicine_id @ ''_'' @ py_str_int (int (length locs))\<rparr>
          in
            (transaction_failed
               (Inr \<lparr>success = True,
                     transaction_hash = blockchainTxHash medicine,
                     block_number = Some (blockNumber medicine),
                     gas_used = Some (gasUsed medicine),
                     reason = None,
                     message =
                       ''Medicine '' @ py_str_int medicine_id @ '' transferred on blockchain''\<rparr>),
             s\<lparr>BLOCKCHAIN_MEDICINES :=
                 update_first (\<lambda>m. med_id m = medicine_id) (transferred medicine_id transfer)
                   (BLOCKCHAIN_MEDICINES s),
               BLOCKCHAIN_STAGES_DATA :=
                 (BLOCKCHAIN_STAGES_DATA s)(medicine_id \<mapsto> stages @ [new_stage]),
               BLOCKCHAIN_LOCATION_DATA :=
                 (BLOCKCHAIN_LOCATION_DATA s)(medicine_id \<mapsto> locs @ [new_location])\<rparr>))"

definition update_temperature ::
  "int \<Rightarrow> store \<Rightarrow> int \<Rightarrow> string \<Rightarrow> (exception + tx_result) \<times> store" where
  "update_temperature now s medicine_id temp =
     (case find (\<lambda>m. med_id m = medicine_id) (BLOCKCHAIN_MEDICINES s) of
        None \<Rightarrow>
          (transaction_failed (Inl (HTTPException 404 ''Medicine not found on blockchain'')), s)
      | Some medicine \<Rightarrow>
          if \<not> temperatureSensitive medicine then
            (transaction_failed (Inl (HTTPException 400 ''Medicine is not temperature sensitive'')), s)
          else
            let new_reading =
                  \<lparr>temperature = temp,
                   t_timestamp = now,
                   t_txHash = ''0xtemp'' @ py_format 16 40 medicine_id\<rparr>
            in
              (transaction_failed
                 (Inr \<lparr>success = True,
                       transaction_hash = t_txHash new_reading,
                       block_number = None,
                       gas_used = None,
                       reason = None,
                       message =
                         ''Temperature updated on blockchain for medicine '' @ py_str_int medicine_id\<rparr>),
               s\<lparr>BLOCKCHAIN_TEMPERATURE_DATA :=
                   (BLOCKCHAIN_TEMPERATURE_DATA s)(medicine_id \<mapsto>
                     entries (BLOCKCHAIN_TEMPERATURE_DATA s) medicine_id @ [new_reading])\<rparr>))"

definition update_location ::
  "int \<Rightarrow> store \<Rightarrow> int \<Rightarrow> string \<Rightarrow> (exception + tx_result) \<times> store" where
  "update_location now s medicine_id loc =
     (case find (\<lambda>m. med_id m = medicine_id) (BLOCKCHAIN_MEDICINES s) of
        None \<Rightarrow>
          (transaction_failed (Inl (HTTPException 404 ''Medicine not found on blockchain'')), s)
      | Some medicine \<Rightarrow>
          let new_location =
                \<lparr>location = loc,
                 l_timestamp = now,
                 l_txHash = ''0xloc'' @ py_format 16 40 medicine_id\<rparr>
          in
            (transaction_failed
               (Inr \<lparr>success = True,
                     transaction_hash = l_txHash new_location,
                     block_number = None,
                     gas_used = None,
                     reason = None,
                     message =
                       ''Location updated on blockchain for medicine '' @ py_str_int medicine_id\<rparr>),
             s\<lparr>BLOCKCHAIN_LOCATION_DATA :=
                 (BLOCKCHAIN_LOCATION_DATA s)(medicine_id \<mapsto>
                   entries (BLOCKCHAIN_LOCATION_DATA s) medicine_id @ [new_location])\<rparr>))"

definition expired :: "int \<Rightarrow> medicine \<Rightarrow> medicine" where
  "expired medicine_id m =
     m\<lparr>status := ''EXPIRED'',
       blockchainTxHash := ''0xexpire'' @ py_format 16 40 medicine_id,
       blockNumber := 3000 + medicine_id,
       gasUsed := 80000\<rparr>"

definition mark_medicine_expired :: "store \<Rightarrow> int \<Rightarrow> (exception + tx_result) \<times> store" where
  "mark_medicine_expired s medicine_id =
     (case find (\<lambda>m. med_id m = medicine_id) (BLOCKCHAIN_MEDICINES s) of
        None \<Rightarrow>
          (transaction_failed (Inl (HTTPException 404 ''Medicine not found on blockchain'')), s)
      | Some medicine0 \<Rightarrow>
          (transaction_failed
             (Inr \<lparr>success = True,
                   transaction_hash = blockchainTxHash (expired medicine_id medicine0),
                   block_number = None,
                   gas_used = None,
                   reason = None,
                   message =
                     ''Medicine '' @ py_str_int medicine_id @ '' marked as expired on blockchain''\<rparr>),
           s\<lparr>BLOCKCHAIN_MEDICINES :=
               update_first (\<lambda>m. med_id m = medicine_id) (expired medicine_id)
                 (BLOCKCHAIN_MEDICINES s)\<rparr>))"

definition recalled :: "int \<Rightarrow> medicine \<Rightarrow> medicine" where
  "recalled medicine_id m =
     m\<lparr>status := ''RECALLED'',
       blockchainTxHash := ''0xrecall'' @ py_format 16 40 medicine_id,
       blockNumber := 4000 + medicine_id,
       gasUsed := 100000\<rparr>"

definition recall_medicine :: "store \<Rightarrow> int \<Rightarrow> string \<Rightarrow> (exception + tx_result) \<times> store" where
  "recall_medicine s medicine_id why =
     (case find (\<lambda>m. med_id m = medicine_id) (BLOCKCHAIN_MEDICINES s) of
        None \<Rightarrow>
          (transaction_failed (Inl (HTTPException 404 ''Medicine not found on blockchain'')), s)
      | Some medicine0 \<Rightarrow>
          (transaction_failed
             (Inr \<lparr>success = True,
                   transaction_hash = blockchainTxHash (recalled medicine_id medicine0),
                   block_number = None,
                   gas_used = None,
                   reason = Some why,
                   message = ''Medicine '' @ py_str_int medicine_id @ '' recalled on blockchain''\<rparr>),
           s\<lparr>BLOCKCHAIN_MEDICINES :=
               update_first (\<lambda>m. med_id m = medicine_id) (recalled medicine_id)
                 (BLOCKCHAIN_MEDICINES s)\<rparr>))"

text \<open>\<^verbatim>\<open>/health\<close> and \<^verbatim>\<open>/contracts/info\<close> report \<^verbatim>\<open>len(BLOCKCHAIN_MEDICINES)\<close> as the total.\<close>

definition total_medicines :: "store \<Rightarrow> nat" where
  "total_medicines s = length (BLOCKCHAIN_MEDICINES s)"

subsection \<open>The dataset at start-up\<close>

text \<open>
  The module builds its dataset when it is imported. Every timestamp there is
  \<^verbatim>\<open>int((datetime.now() - timedelta(days=k)).timestamp())\<close>; \<open>t0\<close> is the time of the
  import in seconds, and a day is taken as 86400 seconds (the clock's advance between
  two of these readings and a change of the local UTC offset are left out). The degree
  sign of the temperature strings is written as its two UTF-8 bytes.
\<close>

definition days_ago :: "int \<Rightarrow> int \<Rightarrow> int" where
  "days_ago t0 k = t0 - k * 86400"

definition days_ahead :: "int \<Rightarrow> int \<Rightarrow> int" where
  "days_ahead t0 k = t0 + k * 86400"

definition degree :: string where
  "degree = [CHR 0xC2, CHR 0xB0]"

definition seed_medicines :: "int \<Rightarrow> medicine list" where
  "seed_medicines t0 =
     [\<lparr>med_id = 1,
       name = ''Aspirin'',
       batchNumber = ''ASP001'',
       manufactureDate = days_ago t0 30,
       expiryDate = days_ahead t0 365,
       manufacturer = addr_manufacturer,
       currentOwner = addr_manufacturer,
       status = ''MANUFACTURED'',
       temperatureThreshold = 25,
       temperatureSensitive = False,
       isActive = True,
       blockchainTxHash = ''0x1234567890abcdef1234567890abcdef12345678'',
       blockNumber = 1001,
       gasUsed = 150000,
       currentOwnerName = None,
       statusFormatted = None\<rparr>,
      \<lparr>med_id = 2,
       name = ''Insulin'',
       batchNumber = ''INS002'',
       manufactureDate = days_ago t0 15,
       expiryDate = days_ahead t0 180,
       manufacturer = addr_manufacturer,
       currentOwner = addr_distributor,
       status = ''SHIPPED_TO_DISTRIBUTOR'',
       temperatureThreshold = 8,
       temperatureSensitive = True,
       isActive = True,
       blockchainTxHash = ''0xabcdef1234567890abcdef1234567890abcdef12'',
       blockNumber = 1002,
       gasUsed = 180000,
       currentOwnerName = None,
       statusFormatted = None\<rparr>,
      \<lparr>med_id = 3,
       name = ''Paracetamol'',
       batchNumber = ''PAR003'',
       manufactureDate = days_ago t0 7,
       expiryDate = days_ahead t0 730,
       manufacturer = addr_manufacturer,
       currentOwner = addr_pharmacy,
       status = ''RECEIVED_BY_PHARMACY'',
       temperatureThreshold = 30,
       temperatureSensitive = False,
       isActive = True,
       blockchainTxHash = ''0x567890abcdef1234567890abcdef1234567890ab'',
       blockNumber = 1003,
       gasUsed = 160000,
       currentOwnerName = None,
       statusFormatted = None\<rparr>,
      \<lparr>med_id = 4,
       name = ''Antibiotic'',
       batchNumber = ''ANT004'',
       manufactureDate = days_ago t0 45,
       expiryDate = days_ahead t0 90,
       manufacturer = addr_manufacturer,
       currentOwner = addr_patient1,
       status = ''SOLD_TO_PATIENT'',
       temperatureThreshold = 20,
       temperatureSensitive = True,
       isActive = True,
       blockchainTxHash = ''0x7890abcdef1234567890abcdef1234567890abcd'',
       blockNumber = 1004,
       gasUsed = 170000,
       currentOwnerName = None,
       statusFormatted = None\<rparr>,
      \<lparr>med_id = 5,
       name = ''Vitamin D'',
       batchNumber = ''VIT005'',
       manufactureDate = days_ago t0 60,
       expiryDate = days_ago t0 1,
       manufacturer = addr_manufacturer,
       currentOwner = addr_patient2,
       status = ''EXPIRED'',
       temperatureThreshold = 25,
       temperatureSensitive = False,
       isActive = True,
       blockchainTxHash = ''0x90abcdef1234567890abcdef1234567890abcdef'',
       blockNumber = 1005,
       gasUsed = 140000,
       currentOwnerName = None,
       statusFormatted = None\<rparr>]"

definition seed_temperature_data :: "int \<Rightarrow> (int \<rightharpoonup> temperature_reading list)" where
  "seed_temperature_data t0 =
       [2 \<mapsto>
         [\<lparr>temperature = ''5'' @ degree @ ''C'', t_timestamp = days_ago t0 10, t_txHash = ''0xtemp001''\<rparr>,
          \<lparr>temperature = ''6'' @ degree @ ''C'', t_timestamp = days_ago t0 8, t_txHash = ''0xtemp002''\<rparr>,
          \<lparr>temperature = ''4'' @ degree @ ''C'', t_timestamp = days_ago t0 5, t_txHash = ''0xtemp003''\<rparr>,
          \<lparr>temperature = ''7'' @ degree @ ''C'', t_timestamp = days_ago t0 2, t_txHash = ''0xtemp004''\<rparr>],
        4 \<mapsto>
         [\<lparr>temperature = ''18'' @ degree @ ''C'', t_timestamp = days_ago t0 20, t_txHash = ''0xtemp005''\<rparr>,
          \<lparr>temperature = ''22'' @ degree @ ''C'', t_timestamp = days_ago t0 15, t_txHash = ''0xtemp006''\<rparr>]]"

definition seed_location_data :: "int \<Rightarrow> (int \<rightharpoonup> location_entry list)" where
  "seed_location_data t0 =
       [1 \<mapsto>
         [\<lparr>location = ''Manufacturing Plant A'', l_timestamp = days_ago t0 30, l_txHash = ''0xloc001''\<rparr>,
          \<lparr>location = ''Quality Control Lab'', l_timestamp = days_ago t0 28, l_txHash = ''0xloc002''\<rparr>],
        2 \<mapsto>
         [\<lparr>location = ''Manufacturing Plant A'', l_timestamp = days_ago t0 15, l_txHash = ''0xloc003''\<rparr>,
          \<lparr>location = ''Cold Storage Facility'', l_timestamp = days_ago t0 12, l_txHash = ''0xloc004''\<rparr>,
          \<lparr>location = ''Distribution Center'', l_timestamp = days_ago t0 8, l_txHash = ''0xloc005''\<rparr>],
        3 \<mapsto>
         [\<lparr>location = ''Manufacturing Plant A'', l_timestamp = days_ago t0 7, l_txHash = ''0xloc006''\<rparr>,
          \<lparr>location = ''Warehouse B'', l_timestamp = days_ago t0 5, l_txHash = ''0xloc007''\<rparr>,
          \<lparr>location = ''Pharmacy D'', l_timestamp = days_ago t0 2, l_txHash = ''0xloc008''\<rparr>],
        4 \<mapsto>
         [\<lparr>location = ''Manufacturing Plant A'', l_timestamp = days_ago t0 45, l_txHash = ''0xloc009''\<rparr>,
          \<lparr>location = ''Pharmacy D'', l_timestamp = days_ago t0 10, l_txHash = ''0xloc010''\<rparr>,
          \<lparr>location = ''Patient Home'', l_timestamp = days_ago t0 1, l_txHash = ''0xloc011''\<rparr>]]"

definition seed_stages_data :: "int \<Rightarrow> (int \<rightharpoonup> stage_entry list)" where
  "seed_stages_data t0 =
       [1 \<mapsto>
         [\<lparr>stage = ''MANUFACTURED'', s_location = ''Manufacturing Plant A'', owner = addr_manufacturer,
           s_timestamp = days_ago t0 30, s_txHash = ''0xstage001'',
           s_recipientName = None, pharmacyName = None,
           distributorName = None, patientName = None\<rparr>],
        2 \<mapsto>
         [\<lparr>stage = ''MANUFACTURED'', s_location = ''Manufacturing Plant A'', owner = addr_manufacturer,
           s_timestamp = days_ago t0 15, s_txHash = ''0xstage002'',
           s_recipientName = None, pharmacyName = None,
           distributorName = None, patientName = None\<rparr>,
          \<lparr>stage = ''SHIPPED_TO_DISTRIBUTOR'', s_location = ''Loading Dock A'', owner = addr_distributor,
           s_timestamp = days_ago t0 13, s_txHash = ''0xstage003'',
           s_recipientName = Some ''Global Distributors Ltd.'', pharmacyName = None,
           distributorName = Some ''Global Distributors Ltd.'', patientName = None\<rparr>,
          \<lparr>stage = ''RECEIVED_BY_DISTRIBUTOR'', s_location = ''Distribution Center'', owner = addr_distributor,
           s_timestamp = days_ago t0 12, s_txHash = ''0xstage004'',
           s_recipientName = Some ''Global Distributors Ltd.'', pharmacyName = None,
           distributorName = Some ''Global Distributors Ltd.'', patientName = None\<rparr>],
        3 \<mapsto>
         [\<lparr>stage = ''MANUFACTURED'', s_location = ''Manufacturing Plant A'', owner = addr_manufacturer,
           s_timestamp = days_ago t0 7, s_txHash = ''0xstage005'',
           s_recipientName = None, pharmacyName = None,
           distributorName = None, patientName = None\<rparr>,
          \<lparr>stage = ''SHIPPED_TO_DISTRIBUTOR'', s_location = ''Loading Dock B'', owner = addr_distributor,
           s_timestamp = days_ago t0 6, s_txHash = ''0xstage006'',
           s_recipientName = Some ''Global Distributors Ltd.'', pharmacyName = None,
           distributorName = Some ''Global Distributors Ltd.'', patientName = None\<rparr>,
          \<lparr>stage = ''RECEIVED_BY_DISTRIBUTOR'', s_location = ''Warehouse B'', owner = addr_distributor,
           s_timestamp = days_ago t0 5, s_txHash = ''0xstage007'',
           s_recipientName = Some ''Global Distributors Ltd.'', pharmacyName = None,
           distributorName = Some ''Global Distributors Ltd.'', patientName = None\<rparr>,
          \<lparr>stage = ''SHIPPED_TO_PHARMACY'', s_location = ''Warehouse B - Outbound'', owner = addr_pharmacy,
           s_timestamp = days_ago t0 4, s_txHash = ''0xstage008'',
           s_recipientName = Some ''CITY Engg Pharmacy'', pharmacyName = Some ''CITY Engg Pharmacy'',
           distributorName = None, patientName = None\<rparr>,
          \<lparr>stage = ''RECEIVED_BY_PHARMACY'', s_location = ''CITY Engg Pharmacy'', owner = addr_pharmacy,
           s_timestamp = days_ago t0 2, s_txHash = ''0xstage009'',
           s_recipientName = Some ''CITY Engg Pharmacy'', pharmacyName = Some ''CITY Engg Pharmacy'',
           distributorName = None, patientName = None\<rparr>],
        4 \<mapsto>
         [\<lparr>stage = ''MANUFACTURED'', s_location = ''Manufacturing Plant A'', owner = addr_manufacturer,
           s_timestamp = days_ago t0 45, s_txHash = ''0xstage010'',
           s_recipientName = None, pharmacyName = None,
           distributorName = None, patientName = None\<rparr>,
          \<lparr>stage = ''SHIPPED_TO_DISTRIBUTOR'', s_location = ''Loading Dock C'', owner = addr_distributor,
           s_timestamp = days_ago t0 43, s_txHash = ''0xstage011'',
           s_recipientName = Some ''Global Distributors Ltd.'', pharmacyName = None,
           distributorName = Some ''Global Distributors Ltd.'', patientName = None\<rparr>,
          \<lparr>stage = ''RECEIVED_BY_DISTRIBUTOR'', s_location = ''Distribution Center'', owner = addr_distributor,
           s_timestamp = days_ago t0 42, s_txHash = ''0xstage012'',
           s_recipientName = Some ''Global Distributors Ltd.'', pharmacyName = None,
           distributorName = Some ''Global Distributors Ltd.'', patientName = None\<rparr>,
          \<lparr>stage = ''SHIPPED_TO_PHARMACY'', s_location = ''Distribution Center - Outbound'', owner = addr_pharmacy,
           s_timestamp = days_ago t0 40, s_txHash = ''0xstage013'',
           s_recipientName = Some ''CITY Engg Pharmacy'', pharmacyName = Some ''CITY Engg Pharmacy'',
           distributorName = None, patientName = None\<rparr>,
          \<lparr>stage = ''RECEIVED_BY_PHARMACY'', s_location = ''CITY Engg Pharmacy'', owner = addr_pharmacy,
           s_timestamp = days_ago t0 38, s_txHash = ''0xstage014'',
           s_recipientName = Some ''CITY Engg Pharmacy'', pharmacyName = Some ''CITY Engg Pharmacy'',
           distributorName = None, patientName = None\<rparr>,
          \<lparr>stage = ''SOLD_TO_PATIENT'', s_location = ''Patient Home'', owner = addr_patient1,
           s_timestamp = days_ago t0 1, s_txHash = ''0xstage015'',
           s_recipientName = Some ''John Smith'', pharmacyName = None,
           distributorName = None, patientName = Some ''John Smith''\<rparr>],
        5 \<mapsto>
         [\<lparr>stage = ''MANUFACTURED'', s_location = ''Manufacturing Plant A'', owner = addr_manufacturer,
           s_timestamp = days_ago t0 60, s_txHash = ''0xstage016'',
           s_recipientName = None, pharmacyName = None,
           distributorName = None, patientName = None\<rparr>,
          \<lparr>stage = ''SHIPPED_TO_DISTRIBUTOR'', s_location = ''Loading Dock D'', owner = addr_distributor,
           s_timestamp = days_ago t0 58, s_txHash = ''0xstage017'',
           s_recipientName = None, pharmacyName = None,
           distributorName = None, patientName = None\<rparr>,
          \<lparr>stage = ''RECEIVED_BY_PHARMACY'', s_location = ''CITY Engg Pharmacy'', owner = addr_pharmacy,
           s_timestamp = days_ago t0 2, s_txHash = ''0xstage018'',
           s_recipientName = None, pharmacyName = Some ''CITY Engg Pharmacy'',
           distributorName = None, patientName = None\<rparr>,
          \<lparr>stage = ''EXPIRED'', s_location = ''CITY Engg Pharmacy - Expired Stock'', owner = addr_patient2,
           s_timestamp = days_ago t0 1, s_txHash = ''0xstage019'',
           s_recipientName = None, pharmacyName = None,
           distributorName = None, patientName = None\<rparr>]]"

definition seed :: "int \<Rightarrow> store" where
  "seed t0 =
     \<lparr>BLOCKCHAIN_MEDICINES = seed_medicines t0,
      BLOCKCHAIN_TEMPERATURE_DATA = seed_temperature_data t0,
      BLOCKCHAIN_LOCATION_DATA = seed_location_data t0,
      BLOCKCHAIN_STAGES_DATA = seed_stages_data t0\<rparr>"

section \<open>The ledger path: blockchain_service.py\<close>

subsection \<open>Python values and the node\<close>

text \<open>
  The service handles what web3 gives it without looking at its type, so these values
  are modelled untyped: a tuple or a list is \<open>PList\<close>, a dict or a web3
  \<^verbatim>\<open>AttributeDict\<close> is \<open>PDict\<close> (string keys), bytes and addresses are \<open>PStr\<close>.
\<close>

datatype pyval =
    PNone
  | PBool bool
  | PInt int
  | PStr string
  | PList "pyval list"
  | PDict "(string \<times> pyval) list"

text \<open>\<^verbatim>\<open>v[i]\<close> for a constant index \<open>i \<ge> 0\<close>, \<^verbatim>\<open>v['k']\<close>, and \<^verbatim>\<open>v.k\<close>.\<close>

fun subscript :: "pyval \<Rightarrow> nat \<Rightarrow> exception + pyval" where
  "subscript (PList xs) i =
     (if i < length xs then Inr (xs ! i) else Inl (IndexError ''tuple index out of range''))"
| "subscript (PStr cs) i =
     (if i < length cs then Inr (PStr [cs ! i]) else Inl (IndexError ''string index out of range''))"
| "subscript (PDict d) i = Inl (KeyError (py_str_int (int i)))"
| "subscript v i = Inl (TypeError ''object is not subscriptable'')"

fun item :: "pyval \<Rightarrow> string \<Rightarrow> exception + pyval" where
  "item (PDict d) k = (case map_of d k of Some v \<Rightarrow> Inr v | None \<Rightarrow> Inl (KeyError k))"
| "item (PList xs) k = Inl (TypeError ''indices must be integers or slices, not str'')"
| "item (PStr cs) k = Inl (TypeError ''string indices must be integers'')"
| "item v k = Inl (TypeError ''object is not subscriptable'')"

fun attr :: "pyval \<Rightarrow> string \<Rightarrow> exception + pyval" where
  "attr (PDict d) k = (case map_of d k of Some v \<Rightarrow> Inr v | None \<Rightarrow> Inl (AttributeError k))"
| "attr v k = Inl (AttributeError k)"

text \<open>Python's truth value, \<^verbatim>\<open>for x in v\<close>, and an integer operand (\<^verbatim>\<open>bool\<close> is an \<^verbatim>\<open>int\<close>).\<close>

fun py_bool :: "pyval \<Rightarrow> bool" where
  "py_bool PNone = False"
| "py_bool (PBool b) = b"
| "py_bool (PInt n) = (n \<noteq> 0)"
| "py_bool (PStr cs) = (cs \<noteq> [])"
| "py_bool (PList xs) = (xs \<noteq> [])"
| "py_bool (PDict d) = (d \<noteq> [])"

fun py_iter :: "pyval \<Rightarrow> exception + pyval list" where
  "py_iter (PList xs) = Inr xs"
| "py_iter (PStr cs) = Inr (map (\<lambda>c. PStr [c]) cs)"
| "py_iter (PDict d) = Inr (map (\<lambda>kv. PStr (fst kv)) d)"
| "py_iter v = Inl (TypeError ''object is not iterable'')"

fun py_int :: "pyval \<Rightarrow> exception + int" where
  "py_int (PInt n) = Inr n"
| "py_int (PBool b) = Inr (if b then 1 else 0)"
| "py_int v = Inl (TypeError ''unsupported operand type(s) for +'')"

datatype Role = NONE | MANUFACTURER | DISTRIBUTOR | PHARMACY | PATIENT | ADMIN

fun role_value :: "Role \<Rightarrow> string" where
  "role_value NONE = ''NONE''"
| "role_value MANUFACTURER = ''MANUFACTURER''"
| "role_value DISTRIBUTOR = ''DISTRIBUTOR''"
| "role_value PHARMACY = ''PHARMACY''"
| "role_value PATIENT = ''PATIENT''"
| "role_value ADMIN = ''ADMIN''"

definition all_roles :: "Role list" where
  "all_roles = [NONE, MANUFACTURER, DISTRIBUTOR, PHARMACY, PATIENT, ADMIN]"

text \<open>
  \<^verbatim>\<open>MedicineStatus(v)\<close> and \<^verbatim>\<open>Role(v)\<close> look a member up by value. Both enums have
  string values, so only a string that is one of the values is accepted; an integer
  (the way a contract encodes an enum) raises \<^verbatim>\<open>ValueError\<close>.
  \<^verbatim>\<open>getattr(MedicineStatus, s)\<close> looks a member up by name.
\<close>

definition MedicineStatus_of_value :: "pyval \<Rightarrow> exception + MedicineStatus" where
  "MedicineStatus_of_value v =
     (case v of
        PStr cs \<Rightarrow>
          (case find (\<lambda>m. status_value m = cs) all_statuses of
             Some m \<Rightarrow> Inr m
           | None \<Rightarrow> Inl (ValueError ''not a valid MedicineStatus''))
      | _ \<Rightarrow> Inl (ValueError ''not a valid MedicineStatus''))"

definition Role_of_value :: "pyval \<Rightarrow> exception + Role" where
  "Role_of_value v =
     (case v of
        PStr cs \<Rightarrow>
          (case find (\<lambda>r. role_value r = cs) all_roles of
             Some r \<Rightarrow> Inr r
           | None \<Rightarrow> Inl (ValueError ''not a valid Role''))
      | _ \<Rightarrow> Inl (ValueError ''not a valid Role''))"

definition MedicineStatus_getattr :: "string \<Rightarrow> exception + MedicineStatus" where
  "MedicineStatus_getattr cs =
     (case find (\<lambda>m. status_value m = cs) all_statuses of
        Some m \<Rightarrow> Inr m
      | None \<Rightarrow> Inl (AttributeError cs))"

text \<open>
  What the service does not own is a parameter: the node behind web3, with a state
  \<open>'l\<close> of its own that every request may change, the two libraries' pure functions,
  and the process environment. Each field is the call of the same name.
  \<open>contract_function c f args\<close> is \<^verbatim>\<open>c.functions.f(*args)\<close>, which only raises or
  not; \<open>fn_call\<close> and \<open>fn_build_transaction\<close> are its \<^verbatim>\<open>.call()\<close> and
  \<^verbatim>\<open>.build_transaction(params)\<close>.
\<close>

record 'l environment =
  w3_is_connected :: "'l \<Rightarrow> bool \<times> 'l"
  eth_accounts :: "'l \<Rightarrow> (exception + pyval) \<times> 'l"
  eth_gas_price :: "'l \<Rightarrow> (exception + pyval) \<times> 'l"
  eth_get_transaction_count :: "pyval \<Rightarrow> 'l \<Rightarrow> (exception + pyval) \<times> 'l"
  contract_function :: "pyval \<Rightarrow> string \<Rightarrow> pyval list \<Rightarrow> exception option"
  fn_call :: "pyval \<Rightarrow> string \<Rightarrow> pyval list \<Rightarrow> 'l \<Rightarrow> (exception + pyval) \<times> 'l"
  fn_build_transaction ::
    "pyval \<Rightarrow> string \<Rightarrow> pyval list \<Rightarrow> pyval \<Rightarrow> 'l \<Rightarrow> (exception + pyval) \<times> 'l"
  sign_transaction :: "pyval \<Rightarrow> string \<Rightarrow> exception + pyval"
  send_raw_transaction :: "pyval \<Rightarrow> 'l \<Rightarrow> (exception + pyval) \<times> 'l"
  wait_for_transaction_receipt :: "pyval \<Rightarrow> 'l \<Rightarrow> (exception + pyval) \<times> 'l"
  process_receipt :: "pyval \<Rightarrow> string \<Rightarrow> pyval \<Rightarrow> exception + pyval"
  hexbytes_hex :: "pyval \<Rightarrow> exception + pyval"
  getenv_PRIVATE_KEY :: "string option"
  json_loads :: "pyval \<Rightarrow> exception + pyval"
  eth_contract :: "pyval \<Rightarrow> pyval \<Rightarrow> exception + pyval"

text \<open>
  A log of the requests sent to the node, kept beside its state, records what an
  operation did there. It is not part of the program.
\<close>

datatype request =
    IsConnected
  | Accounts
  | GasPrice
  | GetTransactionCount pyval
  | Call string "pyval list"
  | BuildTransaction string "pyval list" pyval
  | SendRawTransaction pyval
  | WaitForTransactionReceipt pyval

type_synonym 'l world = "'l \<times> request list"

type_synonym ('l, 'a) io = "'l world \<Rightarrow> (exception + 'a) \<times> 'l world"

definition ret :: "'a \<Rightarrow> ('l, 'a) io" where
  "ret x = (\<lambda>w. (Inr x, w))"

definition raise :: "exception \<Rightarrow> ('l, 'a) io" where
  "raise e = (\<lambda>w. (Inl e, w))"

definition pure :: "exception + 'a \<Rightarrow> ('l, 'a) io" where
  "pure r = (\<lambda>w. (r, w))"

definition and_then :: "('l, 'a) io \<Rightarrow> ('a \<Rightarrow> ('l, 'b) io) \<Rightarrow> ('l, 'b) io" where
  "and_then m f = (\<lambda>w. case m w of (Inl e, w') \<Rightarrow> (Inl e, w') | (Inr x, w') \<Rightarrow> f x w')"

definition node_request :: "request \<Rightarrow> ('l \<Rightarrow> (exception + 'a) \<times> 'l) \<Rightarrow> ('l, 'a) io" where
  "node_request tag f = (\<lambda>(l, lg). case f l of (r, l') \<Rightarrow> (r, (l', lg @ [tag])))"

text \<open>\<^verbatim>\<open>try: body except Exception as e: print(...); return None\<close>.\<close>

definition or_none :: "('l, 'a) io \<Rightarrow> ('l, 'a option) io" where
  "or_none body = (\<lambda>w. case body w of (Inl e, w') \<Rightarrow> (Inr None, w') | (Inr x, w') \<Rightarrow> (Inr (Some x), w'))"

subsection \<open>The service object\<close>

record BlockchainService =
  w3 :: pyval
  access_control_contract :: pyval
  medicine_supply_chain_contract :: pyval
  connected :: bool
  deployment_info :: pyval

text \<open>
  \<^verbatim>\<open>self.connected and self.w3 is not None and self.w3.is_connected()\<close>: the node is
  asked only when the two stored flags allow it.
\<close>

definition is_connected :: "BlockchainService \<Rightarrow> 'l environment \<Rightarrow> 'l world \<Rightarrow> bool \<times> 'l world" where
  "is_connected self env =
     (\<lambda>(l, lg).
        if connected self \<and> w3 self \<noteq> PNone then
          (case w3_is_connected env l of (b, l') \<Rightarrow> (b, (l', lg @ [IsConnected])))
        else (False, (l, lg)))"

text \<open>\<^verbatim>\<open>if not self.is_connected(): raise Exception("Not connected to blockchain")\<close>.\<close>

definition check_connected :: "BlockchainService \<Rightarrow> 'l environment \<Rightarrow> ('l, unit) io" where
  "check_connected self env =
     (\<lambda>w. case is_connected self env w of
             (b, w') \<Rightarrow> if \<not> b then (Inl (Exception ''Not connected to blockchain''), w')
                        else (Inr (), w'))"

definition get_account :: "BlockchainService \<Rightarrow> 'l environment \<Rightarrow> ('l, pyval) io" where
  "get_account self env =
     and_then (check_connected self env) (\<lambda>_.
     and_then (node_request Accounts (eth_accounts env)) (\<lambda>accounts.
     pure (subscript accounts 0)))"

text \<open>\<^verbatim>\<open>c.functions.f(*args)\<close> on a contract attribute that may still be \<^verbatim>\<open>None\<close>.\<close>

definition contract_functions :: "'l environment \<Rightarrow> pyval \<Rightarrow> string \<Rightarrow> pyval list \<Rightarrow> ('l, unit) io" where
  "contract_functions env c f args =
     (if c = PNone then raise (AttributeError ''functions'')
      else case contract_function env c f args of
             Some e \<Rightarrow> raise e
           | None \<Rightarrow> ret ())"

definition call :: "'l environment \<Rightarrow> pyval \<Rightarrow> string \<Rightarrow> pyval list \<Rightarrow> ('l, pyval) io" where
  "call env c f args =
     and_then (contract_functions env c f args) (\<lambda>_.
     node_request (Call f args) (fn_call env c f args))"

text \<open>
  The four statements every write method repeats: build the transaction (with the gas
  price and the nonce read from the node at that moment), sign it with
  \<^verbatim>\<open>os.getenv('PRIVATE_KEY', '')\<close>, send it, wait for the receipt.
\<close>

definition submit ::
  "BlockchainService \<Rightarrow> 'l environment \<Rightarrow> pyval \<Rightarrow> string \<Rightarrow> pyval list \<Rightarrow> int \<Rightarrow> ('l, pyval) io" where
  "submit self env account f args gas =
     and_then (contract_functions env (medicine_supply_chain_contract self) f args) (\<lambda>_.
     and_then (node_request GasPrice (eth_gas_price env)) (\<lambda>gas_price.
     and_then (node_request (GetTransactionCount account) (eth_get_transaction_count env account)) (\<lambda>nonce.
     let params = PDict [(''from'', account), (''gas'', PInt gas),
                         (''gasPrice'', gas_price), (''nonce'', nonce)] in
     and_then (node_request (BuildTransaction f args params)
                 (fn_build_transaction env (medicine_supply_chain_contract self) f args params)) (\<lambda>transaction.
     and_then (pure (sign_transaction env transaction
                       (case getenv_PRIVATE_KEY env of None \<Rightarrow> [] | Some k \<Rightarrow> k))) (\<lambda>signed_txn.
     and_then (pure (attr signed_txn ''rawTransaction'')) (\<lambda>raw.
     and_then (node_request (SendRawTransaction raw) (send_raw_transaction env raw)) (\<lambda>tx_hash.
     node_request (WaitForTransactionReceipt tx_hash) (wait_for_transaction_receipt env tx_hash))))))))"

text \<open>\<^verbatim>\<open>receipt.transactionHash.hex()\<close>.\<close>

definition receipt_hash :: "'l environment \<Rightarrow> pyval \<Rightarrow> ('l, pyval) io" where
  "receipt_hash env receipt =
     and_then (pure (attr receipt ''transactionHash'')) (\<lambda>h. pure (hexbytes_hex env h))"

subsection \<open>Reads\<close>

text \<open>The body of the \<^verbatim>\<open>try\<close> in \<^verbatim>\<open>get_medicine\<close>: the call, then the dict, key by key.\<close>

definition decode_medicine :: "pyval \<Rightarrow> exception + pyval" where
  "decode_medicine medicine_data =
     on_value (subscript medicine_data 0) (\<lambda>v0.
     on_value (subscript medicine_data 1) (\<lambda>v1.
     on_value (subscript medicine_data 2) (\<lambda>v2.
     on_value (subscript medicine_data 3) (\<lambda>v3.
     on_value (subscript medicine_data 4) (\<lambda>v4.
     on_value (subscript medicine_data 5) (\<lambda>v5.
     on_value (subscript medicine_data 6) (\<lambda>v6.
     on_value (subscript medicine_data 7) (\<lambda>v7.
     on_value (MedicineStatus_of_value v7) (\<lambda>st.
     on_value (subscript medicine_data 8) (\<lambda>v8.
     on_value (subscript medicine_data 9) (\<lambda>v9.
     on_value (subscript medicine_data 15) (\<lambda>v15.
       Inr (PDict
         [(''id'', v0),
          (''name'', v1),
          (''batchNumber'', v2),
          (''manufactureDate'', v3),
          (''expiryDate'', v4),
          (''manufacturer'', v5),
          (''currentOwner'', v6),
          (''status'', PStr (status_value st)),
          (''temperatureThreshold'', v8),
          (''temperatureSensitive'', v9),
          (''isActive'', v15)])))))))))))))"

text \<open>\<open>Inr None\<close> is Python's \<^verbatim>\<open>None\<close>, \<open>Inr (Some d)\<close> the dict.\<close>

definition ledger_get_medicine ::
  "BlockchainService \<Rightarrow> 'l environment \<Rightarrow> pyval \<Rightarrow> ('l, pyval option) io" where
  "ledger_get_medicine self env medicine_id =
     and_then (check_connected self env) (\<lambda>_.
     or_none
       (and_then (call env (medicine_supply_chain_contract self) ''getMedicine'' [medicine_id])
          (\<lambda>medicine_data. pure (decode_medicine medicine_data))))"

text \<open>
  The loop of \<^verbatim>\<open>get_all_medicines\<close> and \<^verbatim>\<open>get_medicines_by_batch\<close>:
  \<^verbatim>\<open>for i in ids: medicine = await self.get_medicine(i); if medicine: medicines.append(medicine)\<close>.
\<close>

fun fetch_loop ::
  "BlockchainService \<Rightarrow> 'l environment \<Rightarrow> pyval list \<Rightarrow> pyval list \<Rightarrow> ('l, pyval list) io" where
  "fetch_loop self env [] medicines_acc = ret medicines_acc"
| "fetch_loop self env (i # ids) medicines_acc =
     and_then (ledger_get_medicine self env i) (\<lambda>medicine.
       case medicine of
         Some m \<Rightarrow>
           if py_bool m then fetch_loop self env ids (medicines_acc @ [m])
           else fetch_loop self env ids medicines_acc
       | None \<Rightarrow> fetch_loop self env ids medicines_acc)"

text \<open>\<^verbatim>\<open>range(1, total_medicines + 1)\<close>.\<close>

definition id_range :: "int \<Rightarrow> pyval list" where
  "id_range n = map PInt [1..n]"

definition ledger_get_all_medicines ::
  "BlockchainService \<Rightarrow> 'l environment \<Rightarrow> ('l, pyval list) io" where
  "ledger_get_all_medicines self env =
     and_then (check_connected self env) (\<lambda>_.
     and_then (call env (medicine_supply_chain_contract self) ''getTotalMedicines'' []) (\<lambda>total_medicines.
     and_then (pure (py_int total_medicines)) (\<lambda>n.
     fetch_loop self env (id_range n) [])))"

definition ledger_get_medicines_by_batch ::
  "BlockchainService \<Rightarrow> 'l environment \<Rightarrow> string \<Rightarrow> ('l, pyval list) io" where
  "ledger_get_medicines_by_batch self env batch_number =
     and_then (check_connected self env) (\<lambda>_.
     and_then (call env (medicine_supply_chain_contract self) ''getMedicinesByBatch'' [PStr batch_number])
       (\<lambda>medicine_ids.
     and_then (pure (py_iter medicine_ids)) (\<lambda>ids.
     fetch_loop self env ids [])))"

text \<open>\<^verbatim>\<open>a, b = v\<close>.\<close>

definition unpack2 :: "pyval \<Rightarrow> exception + pyval \<times> pyval" where
  "unpack2 v =
     (case py_iter v of
        Inl e \<Rightarrow> Inl e
      | Inr [a, b] \<Rightarrow> Inr (a, b)
      | Inr _ \<Rightarrow> Inl (ValueError ''wrong number of values to unpack''))"

definition ledger_get_temperature_history ::
  "BlockchainService \<Rightarrow> 'l environment \<Rightarrow> pyval \<Rightarrow> ('l, pyval \<times> pyval) io" where
  "ledger_get_temperature_history self env medicine_id =
     and_then (check_connected self env) (\<lambda>_.
     and_then (call env (medicine_supply_chain_contract self) ''getTemperatureHistory'' [medicine_id])
       (\<lambda>r. pure (unpack2 r)))"

definition ledger_get_location_history ::
  "BlockchainService \<Rightarrow> 'l environment \<Rightarrow> pyval \<Rightarrow> ('l, pyval \<times> pyval) io" where
  "ledger_get_location_history self env medicine_id =
     and_then (check_connected self env) (\<lambda>_.
     and_then (call env (medicine_supply_chain_contract self) ''getLocationHistory'' [medicine_id])
       (\<lambda>r. pure (unpack2 r)))"

definition get_user_role :: "BlockchainService \<Rightarrow> 'l environment \<Rightarrow> string \<Rightarrow> ('l, string) io" where
  "get_user_role self env address =
     and_then (check_connected self env) (\<lambda>_.
     and_then (call env (access_control_contract self) ''getRole'' [PStr address]) (\<lambda>rv.
     pure (on_value (Role_of_value rv) (\<lambda>r. Inr (role_value r)))))"

text \<open>
  \<^verbatim>\<open>get_contract_info\<close> reads the deployment descriptor the object holds and nothing
  else: it takes neither the node nor its state.
\<close>

definition get_contract_info :: "BlockchainService \<Rightarrow> exception + pyval" where
  "get_contract_info self =
     (if \<not> py_bool (deployment_info self) then Inl (Exception ''Deployment info not available'')
      else
        on_value (item (deployment_info self) ''contracts'') (\<lambda>c1.
        on_value (item c1 ''AccessControl'') (\<lambda>ac.
        on_value (item ac ''address'') (\<lambda>ac_address.
        on_value (item (deployment_info self) ''contracts'') (\<lambda>c2.
        on_value (item c2 ''MedicineSupplyChain'') (\<lambda>msc.
        on_value (item msc ''address'') (\<lambda>msc_address.
        on_value (item (deployment_info self) ''network'') (\<lambda>network.
        on_value (item (deployment_info self) ''chainId'') (\<lambda>chain_id.
          Inr (PDict
            [(''accessControlAddress'', ac_address),
             (''medicineSupplyChainAddress'', msc_address),
             (''network'', network),
             (''chainId'', chain_id)]))))))))))"

subsection \<open>Writes\<close>

text \<open>
  \<^verbatim>\<open>manufacture_medicine\<close> up to the receipt, then
  \<^verbatim>\<open>process_receipt(receipt)[0]['args']['medicineId']\<close>, then \<^verbatim>\<open>get_medicine\<close> on that id.
\<close>

definition manufacture_submit ::
  "BlockchainService \<Rightarrow> 'l environment \<Rightarrow> string \<Rightarrow> string \<Rightarrow> int \<Rightarrow> int \<Rightarrow> bool \<Rightarrow> ('l, pyval) io" where
  "manufacture_submit self env nm batch_number expiry_date temperature_threshold temperature_sensitive =
     and_then (check_connected self env) (\<lambda>_.
     and_then (get_account self env) (\<lambda>account.
     submit self env account ''manufactureMedicine''
       [PStr nm, PStr batch_number, PInt expiry_date, PInt temperature_threshold,
        PBool temperature_sensitive]
       500000))"

definition event_medicine_id :: "pyval \<Rightarrow> exception + pyval" where
  "event_medicine_id events =
     on_value (subscript events 0) (\<lambda>ev.
     on_value (item ev ''args'') (\<lambda>args.
     item args ''medicineId''))"

definition manufacture_medicine ::
  "BlockchainService \<Rightarrow> 'l environment \<Rightarrow> string \<Rightarrow> string \<Rightarrow> int \<Rightarrow> int \<Rightarrow> bool \<Rightarrow> ('l, pyval option) io" where
  "manufacture_medicine self env nm batch_number expiry_date temperature_threshold temperature_sensitive =
     and_then
       (manufacture_submit self env nm batch_number expiry_date temperature_threshold
          temperature_sensitive) (\<lambda>receipt.
     and_then
       (pure (process_receipt env (medicine_supply_chain_contract self) ''MedicineManufactured'' receipt))
       (\<lambda>events.
     and_then (pure (event_medicine_id events)) (\<lambda>medicine_id.
     ledger_get_medicine self env medicine_id)))"

definition ledger_transfer_medicine ::
  "BlockchainService \<Rightarrow> 'l environment \<Rightarrow> pyval \<Rightarrow> string \<Rightarrow> string \<Rightarrow> string \<Rightarrow> ('l, pyval) io" where
  "ledger_transfer_medicine self env medicine_id to_address new_status loc =
     and_then (check_connected self env) (\<lambda>_.
     and_then (get_account self env) (\<lambda>account.
     and_then (pure (MedicineStatus_getattr new_status)) (\<lambda>m.
     and_then
       (submit self env account ''transferMedicine''
          [medicine_id, PStr to_address, PStr (status_value m), PStr loc] 500000) (\<lambda>receipt.
     receipt_hash env receipt))))"

definition ledger_update_temperature ::
  "BlockchainService \<Rightarrow> 'l environment \<Rightarrow> pyval \<Rightarrow> string \<Rightarrow> ('l, pyval) io" where
  "ledger_update_temperature self env medicine_id temp =
     and_then (check_connected self env) (\<lambda>_.
     and_then (get_account self env) (\<lambda>account.
     and_then (submit self env account ''updateTemperature'' [medicine_id, PStr temp] 200000)
       (\<lambda>receipt.
     receipt_hash env receipt)))"

definition ledger_update_location ::
  "BlockchainService \<Rightarrow> 'l environment \<Rightarrow> pyval \<Rightarrow> string \<Rightarrow> ('l, pyval) io" where
  "ledger_update_location self env medicine_id loc =
     and_then (check_connected self env) (\<lambda>_.
     and_then (get_account self env) (\<lambda>account.
     and_then (submit self env account ''updateLocation'' [medicine_id, PStr loc] 200000)
       (\<lambda>receipt.
     receipt_hash env receipt)))"

definition mark_as_expired ::
  "BlockchainService \<Rightarrow> 'l environment \<Rightarrow> pyval \<Rightarrow> ('l, pyval) io" where
  "mark_as_expired self env medicine_id =
     and_then (check_connected self env) (\<lambda>_.
     and_then (get_account self env) (\<lambda>account.
     and_then (submit self env account ''markAsExpired'' [medicine_id] 200000) (\<lambda>receipt.
     receipt_hash env receipt)))"

definition ledger_recall_medicine ::
  "BlockchainService \<Rightarrow> 'l environment \<Rightarrow> pyval \<Rightarrow> string \<Rightarrow> ('l, pyval) io" where
  "ledger_recall_medicine self env medicine_id why =
     and_then (check_connected self env) (\<lambda>_.
     and_then (get_account self env) (\<lambda>account.
     and_then (submit self env account ''recallMedicine'' [medicine_id, PStr why] 200000)
       (\<lambda>receipt.
     receipt_hash env receipt)))"

subsection \<open>Construction\<close>

text \<open>
  \<^verbatim>\<open>__init__\<close>, \<^verbatim>\<open>load_deployment_info\<close> and \<^verbatim>\<open>setup_web3\<close>. The outcome of opening
  and parsing \<^verbatim>\<open>../deployment-info.json\<close> is given: the file is missing, or reading it
  raised something else, or it parsed to a value. \<^verbatim>\<open>setup_web3\<close> catches every
  exception and leaves \<^verbatim>\<open>connected\<close> false; what it had assigned by then stays.
\<close>

datatype file_outcome = FileNotFoundError | Loaded "exception + pyval"

definition contract_entry :: "pyval \<Rightarrow> string \<Rightarrow> string \<Rightarrow> exception + pyval" where
  "contract_entry info cname k =
     on_value (item info ''contracts'') (\<lambda>cs.
     on_value (item cs cname) (\<lambda>c.
     item c k))"

definition setup_web3 ::
  "'l environment \<Rightarrow> BlockchainService \<Rightarrow> 'l world \<Rightarrow> BlockchainService \<times> 'l world" where
  "setup_web3 env self0 =
     (\<lambda>(l, lg).
        let self1 = self0\<lparr>w3 := PStr ''http://127.0.0.1:8545''\<rparr> in
        case w3_is_connected env l of
          (b, l') \<Rightarrow>
            let w' = (l', lg @ [IsConnected]) in
            if \<not> b then (self1, w')
            else
              (case on_value (contract_entry (deployment_info self1) ''AccessControl'' ''abi'') (json_loads env) of
                 Inl e \<Rightarrow> (self1\<lparr>connected := False\<rparr>, w')
               | Inr access_control_abi \<Rightarrow>
              (case on_value (contract_entry (deployment_info self1) ''MedicineSupplyChain'' ''abi'') (json_loads env) of
                 Inl e \<Rightarrow> (self1\<lparr>connected := False\<rparr>, w')
               | Inr medicine_supply_chain_abi \<Rightarrow>
              (case on_value (contract_entry (deployment_info self1) ''AccessControl'' ''address'')
                      (\<lambda>a. eth_contract env a access_control_abi) of
                 Inl e \<Rightarrow> (self1\<lparr>connected := False\<rparr>, w')
               | Inr ac \<Rightarrow>
              (let self2 = self1\<lparr>access_control_contract := ac\<rparr> in
               case on_value (contract_entry (deployment_info self2) ''MedicineSupplyChain'' ''address'')
                      (\<lambda>a. eth_contract env a medicine_supply_chain_abi) of
                 Inl e \<Rightarrow> (self2\<lparr>connected := False\<rparr>, w')
               | Inr msc \<Rightarrow>
                   (self2\<lparr>medicine_supply_chain_contract := msc, connected := True\<rparr>, w'))))))"

definition new_BlockchainService ::
  "'l environment \<Rightarrow> file_outcome \<Rightarrow> 'l world \<Rightarrow> (exception + BlockchainService) \<times> 'l world" where
  "new_BlockchainService env file w =
     (let self0 =
            \<lparr>w3 = PNone,
             access_control_contract = PNone,
             medicine_supply_chain_contract = PNone,
             connected = False,
             deployment_info = PNone\<rparr>
      in
        case file of
          FileNotFoundError \<Rightarrow> (Inr self0, w)
        | Loaded (Inl e) \<Rightarrow> (Inl e, w)
        | Loaded (Inr info) \<Rightarrow>
            (case setup_web3 env (self0\<lparr>deployment_info := info\<rparr>) w of
               (self1, w') \<Rightarrow> (Inr self1, w')))"

section \<open>Vocabulary of the statements\<close>

text \<open>An operation succeeded when no exception escaped it.\<close>

definition succeeded :: "exception + 'a \<Rightarrow> bool" where
  "succeeded r = (case r of Inl e \<Rightarrow> False | Inr v \<Rightarrow> True)"

text \<open>
  The states of the mock dataset that the routes can produce: the dataset at start-up,
  and whatever a write route leaves behind (also when it fails).
\<close>

inductive reachable :: "store \<Rightarrow> bool" where
  start: "reachable (seed t0)"
| create: "reachable s \<Longrightarrow> reachable (snd (create_medicine fromtimestamp_raises now s mc))"
| transfer: "reachable s \<Longrightarrow> reachable (snd (transfer_medicine now_stage now_loc s medicine_id tr))"
| temperature: "reachable s \<Longrightarrow> reachable (snd (update_temperature now s medicine_id temp))"
| location: "reachable s \<Longrightarrow> reachable (snd (update_location now s medicine_id loc))"
| expire: "reachable s \<Longrightarrow> reachable (snd (mark_medicine_expired s medicine_id))"
| recall: "reachable s \<Longrightarrow> reachable (snd (recall_medicine s medicine_id why))"

definition all_active :: "store \<Rightarrow> bool" where
  "all_active s = list_all isActive (BLOCKCHAIN_MEDICINES s)"

text \<open>A transfer to the distributor, as shipped from the loading dock.\<close>

definition example_transfer :: MedicineTransfer where
  "example_transfer =
     \<lparr>toAddress = addr_distributor, newStatus = SHIPPED_TO_DISTRIBUTOR,
      tr_location = ''Loading Dock A'', recipientName = None\<rparr>"

text \<open>A creation request whose expiry date is 1600000000 (September 2020).\<close>

definition example_create :: MedicineCreate where
  "example_create =
     \<lparr>mc_name = ''Aspirin'', mc_batchNumber = ''ASP001'', mc_expiryDate = 1600000000,
      mc_temperatureThreshold = 25, mc_temperatureSensitive = False\<rparr>"

text \<open>
  No route clears \<^verbatim>\<open>isActive\<close>; a dataset with an inactive medicine is one seeded that
  way. \<open>deactivate i s\<close> is \<open>s\<close> with the medicines of id \<open>i\<close> marked inactive.
\<close>

definition deactivate :: "int \<Rightarrow> store \<Rightarrow> store" where
  "deactivate i s =
     s\<lparr>BLOCKCHAIN_MEDICINES :=
         map (\<lambda>m. if med_id m = i then m\<lparr>isActive := False\<rparr> else m) (BLOCKCHAIN_MEDICINES s)\<rparr>"

text \<open>The id that \<^verbatim>\<open>create_medicine\<close> assigns: one more than the largest id stored.\<close>

definition new_id_of :: "store \<Rightarrow> int" where
  "new_id_of s =
     (if BLOCKCHAIN_MEDICINES s = [] then 1 else py_max (map med_id (BLOCKCHAIN_MEDICINES s)) + 1)"


text \<open>
  How many of the fetches of \<open>fetch_loop\<close> gave no record (\<^verbatim>\<open>None\<close>, or a value that
  is false in Python), with the node's state threaded as the loop threads it.
\<close>

fun misses :: "BlockchainService \<Rightarrow> 'l environment \<Rightarrow> pyval list \<Rightarrow> 'l world \<Rightarrow> nat" where
  "misses self env [] w = 0"
| "misses self env (i # ids) w =
     (case ledger_get_medicine self env i w of
        (Inl e, w') \<Rightarrow> 0
      | (Inr None, w') \<Rightarrow> Suc (misses self env ids w')
      | (Inr (Some m), w') \<Rightarrow> (if py_bool m then 0 else 1) + misses self env ids w')"

text \<open>
  The outcome of an operation that found the client not connected: the exception of the
  check, and a node that was sent nothing but the probe of the check (if that).
\<close>

definition not_connected_failure ::
  "BlockchainService \<Rightarrow> 'l environment \<Rightarrow> 'l world \<Rightarrow> (exception + 'a) \<times> 'l world \<Rightarrow> bool" where
  "not_connected_failure self env w r =
     (fst r = Inl (Exception ''Not connected to blockchain'')
      \<and> snd r = snd (is_connected self env w)
      \<and> (snd (snd r) = snd w \<or> snd (snd r) = snd w @ [IsConnected]))"

subsection \<open>A node for the examples\<close>

text \<open>
  A node with no state of its own that is reachable, holds two medicine ids, answers
  \<^verbatim>\<open>getMedicine(1)\<close> with a record and rejects every other call, and whose receipts carry
  one \<^verbatim>\<open>MedicineManufactured\<close> event for id 1.
\<close>

definition example_record :: pyval where
  "example_record =
     PList [PInt 1, PStr ''Aspirin'', PStr ''ASP001'', PInt 1500000000, PInt 1600000000,
            PStr addr_manufacturer, PStr addr_manufacturer, PStr ''MANUFACTURED'', PInt 25,
            PBool False, PList [], PList [], PList [], PList [], PList [], PBool True]"

definition example_env :: "unit environment" where
  "example_env =
     \<lparr>w3_is_connected = (\<lambda>l. (True, l)),
      eth_accounts = (\<lambda>l. (Inr (PList [PStr addr_manufacturer]), l)),
      eth_gas_price = (\<lambda>l. (Inr (PInt 1000000000), l)),
      eth_get_transaction_count = (\<lambda>a l. (Inr (PInt 0), l)),
      contract_function = (\<lambda>c f args. None),
      fn_call =
        (\<lambda>c f args l.
           (if f = ''getTotalMedicines'' then Inr (PInt 2)
            else if f = ''getMedicine'' \<and> args = [PInt 1] then Inr example_record
            else Inl (OtherError ''execution reverted''), l)),
      fn_build_transaction = (\<lambda>c f args params l. (Inr params, l)),
      sign_transaction = (\<lambda>tx key. Inr (PDict [(''rawTransaction'', PStr ''signed'')])),
      send_raw_transaction = (\<lambda>raw l. (Inr (PStr ''0xabc''), l)),
      wait_for_transaction_receipt =
        (\<lambda>h l. (Inr (PDict [(''transactionHash'', h), (''status'', PInt 1)]), l)),
      process_receipt =
        (\<lambda>c ev receipt. Inr (PList [PDict [(''args'', PDict [(''medicineId'', PInt 1)])]])),
      hexbytes_hex = (\<lambda>v. Inr v),
      getenv_PRIVATE_KEY = None,
      json_loads = (\<lambda>v. Inr (PList [])),
      eth_contract = (\<lambda>address abi. Inr (PDict [(''address'', address), (''abi'', abi)]))\<rparr>"


definition offline_env :: "unit environment" where
  "offline_env = example_env\<lparr>w3_is_connected := (\<lambda>l. (False, l))\<rparr>"

definition example_deployment :: pyval where
  "example_deployment =
     PDict
       [(''contracts'',
         PDict
           [(''AccessControl'',
             PDict [(''address'', PStr ''0x5FbDB2315678afecb367f032d93F642f64180aa3''),
                    (''abi'', PStr ''[]'')]),
            (''MedicineSupplyChain'',
             PDict [(''address'', PStr ''0xe7f1725E7734CE288F8367e1Bb143E90bb3F0512''),
                    (''abi'', PStr ''[]'')])]),
        (''network'', PStr ''localhost''),
        (''chainId'', PInt 1337)]"

text \<open>The objects the constructor builds from that descriptor, node up and node down.\<close>

definition example_service :: BlockchainService where
  "example_service =
     \<lparr>w3 = PStr ''http://127.0.0.1:8545'',
      access_control_contract =
        PDict [(''address'', PStr ''0x5FbDB2315678afecb367f032d93F642f64180aa3''), (''abi'', PList [])],
      medicine_supply_chain_contract =
        PDict [(''address'', PStr ''0xe7f1725E7734CE288F8367e1Bb143E90bb3F0512''), (''abi'', PList [])],
      connected = True,
      deployment_info = example_deployment\<rparr>"

definition offline_service :: BlockchainService where
  "offline_service =
     \<lparr>w3 = PStr ''http://127.0.0.1:8545'',
      access_control_contract = PNone,
      medicine_supply_chain_contract = PNone,
      connected = False,
      deployment_info = example_deployment\<rparr>"







section \<open>Properties of the mock path\<close>

lemma succeeded_simps [simp]: "succeeded (Inr v)" "\<not> succeeded (Inl e)"
  by (simp_all add: succeeded_def)

lemma query_failed_simps [simp]:
  "query_failed (Inr v) = Inr v"
  "query_failed (Inl e) = Inl (HTTPException 500 (''Blockchain query failed: '' @ str_exc e))"
  by (simp_all add: query_failed_def reraise_as_def)

lemma transaction_failed_simps [simp]:
  "transaction_failed (Inr v) = Inr v"
  "transaction_failed (Inl e) = Inl (HTTPException 400 (''Blockchain transaction failed: '' @ str_exc e))"
  by (simp_all add: transaction_failed_def reraise_as_def)

lemma py_str_int_404: "py_str_int 404 = ''404''"
  by (simp add: py_str_int_def py_format_def digits.simps digit_char_def)

lemma py_str_int_400: "py_str_int 400 = ''400''"
  by (simp add: py_str_int_def py_format_def digits.simps digit_char_def)

subsection \<open>Lookup and in-place update\<close>

lemma find_all_active:
  "list_all isActive xs \<Longrightarrow>
   find (\<lambda>m. med_id m = i \<and> isActive m) xs = find (\<lambda>m. med_id m = i) xs"
  by (induction xs) auto

lemma find_update_first:
  assumes "\<And>m. med_id (f m) = med_id m"
  shows "find (\<lambda>m. med_id m = i) (update_first (\<lambda>m. med_id m = i) f xs)
         = map_option f (find (\<lambda>m. med_id m = i) xs)"
  using assms by (induction xs) auto

lemma list_all_update_first:
  assumes "\<And>m. isActive (f m) = isActive m"
  shows "list_all isActive (update_first p f xs) = list_all isActive xs"
  using assms by (induction xs) auto

lemma map_med_id_update_first:
  assumes "\<And>m. med_id (f m) = med_id m"
  shows "map med_id (update_first p f xs) = map med_id xs"
  using assms by (induction xs) auto

lemma length_update_first [simp]: "length (update_first p f xs) = length xs"
  by (induction xs) auto

lemma transferred_keeps [simp]:
  "med_id (transferred i tr m) = med_id m" "isActive (transferred i tr m) = isActive m"
  "currentOwner (transferred i tr m) = toAddress tr"
  "status (transferred i tr m) = status_value (newStatus tr)"
  by (simp_all add: transferred_def)

lemma expired_keeps [simp]:
  "med_id (expired i m) = med_id m" "isActive (expired i m) = isActive m"
  "status (expired i m) = ''EXPIRED''"
  by (simp_all add: expired_def)

lemma recalled_keeps [simp]:
  "med_id (recalled i m) = med_id m" "isActive (recalled i m) = isActive m"
  "status (recalled i m) = ''RECALLED''"
  by (simp_all add: recalled_def)

lemma with_names_keeps [simp]:
  "med_id (with_names m) = med_id m" "isActive (with_names m) = isActive m"
  "currentOwner (with_names m) = currentOwner m" "status (with_names m) = status m"
  "manufactureDate (with_names m) = manufactureDate m" "expiryDate (with_names m) = expiryDate m"
  by (simp_all add: with_names_def)

subsection \<open>What each write route does to the list of medicines\<close>

lemma update_first_none:
  "find p xs = None \<Longrightarrow> update_first p f xs = xs"
  by (induction xs) (auto split: if_splits)

lemma transfer_medicines:
  "BLOCKCHAIN_MEDICINES (snd (transfer_medicine t1 t2 s i tr)) =
     update_first (\<lambda>m. med_id m = i) (transferred i tr) (BLOCKCHAIN_MEDICINES s)"
  by (cases "find (\<lambda>m. med_id m = i) (BLOCKCHAIN_MEDICINES s)")
     (simp_all add: transfer_medicine_def Let_def update_first_none)

lemma expire_medicines:
  "BLOCKCHAIN_MEDICINES (snd (mark_medicine_expired s i)) =
     update_first (\<lambda>m. med_id m = i) (expired i) (BLOCKCHAIN_MEDICINES s)"
  by (cases "find (\<lambda>m. med_id m = i) (BLOCKCHAIN_MEDICINES s)")
     (simp_all add: mark_medicine_expired_def update_first_none)

lemma recall_medicines:
  "BLOCKCHAIN_MEDICINES (snd (recall_medicine s i why)) =
     update_first (\<lambda>m. med_id m = i) (recalled i) (BLOCKCHAIN_MEDICINES s)"
  by (cases "find (\<lambda>m. med_id m = i) (BLOCKCHAIN_MEDICINES s)")
     (simp_all add: recall_medicine_def update_first_none)

lemma temperature_medicines:
  "BLOCKCHAIN_MEDICINES (snd (update_temperature now s i t)) = BLOCKCHAIN_MEDICINES s"
  by (simp add: update_temperature_def Let_def split: option.splits)

lemma location_medicines:
  "BLOCKCHAIN_MEDICINES (snd (update_location now s i loc)) = BLOCKCHAIN_MEDICINES s"
  by (simp add: update_location_def Let_def split: option.splits)

lemma create_medicines:
  "list_all isActive (BLOCKCHAIN_MEDICINES (snd (create_medicine f now s mc))) =
     list_all isActive (BLOCKCHAIN_MEDICINES s)"
  by (simp add: create_medicine_def Let_def split: option.splits)

lemma seed_all_active: "all_active (seed t0)"
  by (simp add: all_active_def seed_def seed_medicines_def)

lemma reachable_all_active: "reachable s \<Longrightarrow> all_active s"
proof (induction rule: reachable.induct)
  case (start t0)
  show ?case by (rule seed_all_active)
next
  case (create s f now mc)
  then show ?case by (simp add: all_active_def create_medicines)
next
  case (transfer s t1 t2 i tr)
  then show ?case by (simp add: all_active_def transfer_medicines list_all_update_first)
next
  case (temperature s now i t)
  then show ?case by (simp add: all_active_def temperature_medicines)
next
  case (location s now i loc)
  then show ?case by (simp add: all_active_def location_medicines)
next
  case (expire s i)
  then show ?case by (simp add: all_active_def expire_medicines list_all_update_first)
next
  case (recall s i why)
  then show ?case by (simp add: all_active_def recall_medicines list_all_update_first)
qed

subsection \<open>When the write routes succeed\<close>

lemma transfer_succeeded:
  "succeeded (fst (transfer_medicine t1 t2 s i tr)) =
     (find (\<lambda>m. med_id m = i) (BLOCKCHAIN_MEDICINES s) \<noteq> None)"
  by (simp add: transfer_medicine_def Let_def split: option.splits)

lemma expire_succeeded:
  "succeeded (fst (mark_medicine_expired s i)) =
     (find (\<lambda>m. med_id m = i) (BLOCKCHAIN_MEDICINES s) \<noteq> None)"
  by (simp add: mark_medicine_expired_def split: option.splits)

lemma recall_succeeded:
  "succeeded (fst (recall_medicine s i why)) =
     (find (\<lambda>m. med_id m = i) (BLOCKCHAIN_MEDICINES s) \<noteq> None)"
  by (simp add: recall_medicine_def split: option.splits)

lemma location_succeeded:
  "succeeded (fst (update_location now s i loc)) =
     (find (\<lambda>m. med_id m = i) (BLOCKCHAIN_MEDICINES s) \<noteq> None)"
  by (simp add: update_location_def Let_def split: option.splits)

lemma temperature_succeeded:
  "succeeded (fst (update_temperature now s i t)) =
     (\<exists>m. find (\<lambda>m. med_id m = i) (BLOCKCHAIN_MEDICINES s) = Some m \<and> temperatureSensitive m)"
  by (simp add: update_temperature_def Let_def split: option.splits)

subsection \<open>Reading a medicine back after a transfer\<close>

lemma get_medicine_all_active:
  "all_active s \<Longrightarrow>
   get_medicine s i =
     (case find (\<lambda>m. med_id m = i) (BLOCKCHAIN_MEDICINES s) of
        None \<Rightarrow> Inl (HTTPException 500 ''Blockchain query failed: 404: Medicine not found on blockchain'')
      | Some m \<Rightarrow> Inr (with_names m))"
  by (simp add: get_medicine_def all_active_def find_all_active py_str_int_404 split: option.splits)

lemma exists_get_medicine_all_active:
  "all_active s \<Longrightarrow>
   (\<exists>m0. get_medicine s i = Inr m0) = (find (\<lambda>m. med_id m = i) (BLOCKCHAIN_MEDICINES s) \<noteq> None)"
  by (auto simp: get_medicine_all_active split: option.splits)

text \<open>
  C7. In every state the routes can produce, a transfer succeeds exactly when the id
  exists, that is when \<^verbatim>\<open>get_medicine\<close> returns a medicine for it; and a transfer that
  succeeded is followed, with no write in between, by a \<^verbatim>\<open>get_medicine\<close> of the same id
  that returns a record of that id whose \<^verbatim>\<open>currentOwner\<close> is the transfer's \<^verbatim>\<open>toAddress\<close>
  and whose \<^verbatim>\<open>status\<close> is its \<^verbatim>\<open>newStatus\<close>.
\<close>

theorem transfer_then_get_medicine:
  assumes "reachable s"
  shows "succeeded (fst (transfer_medicine now_stage now_loc s medicine_id tr))
           = (\<exists>m0. get_medicine s medicine_id = Inr m0)
       \<and> (succeeded (fst (transfer_medicine now_stage now_loc s medicine_id tr)) \<longrightarrow>
            (\<exists>m. get_medicine (snd (transfer_medicine now_stage now_loc s medicine_id tr)) medicine_id = Inr m
                 \<and> med_id m = medicine_id
                 \<and> currentOwner m = toAddress tr
                 \<and> status m = status_value (newStatus tr)))"
proof (intro conjI impI)
  have act0: "all_active s" using assms by (rule reachable_all_active)
  show "succeeded (fst (transfer_medicine now_stage now_loc s medicine_id tr))
           = (\<exists>m0. get_medicine s medicine_id = Inr m0)"
    by (simp add: transfer_succeeded exists_get_medicine_all_active [OF act0])
next
  let ?s' = "snd (transfer_medicine now_stage now_loc s medicine_id tr)"
  assume "succeeded (fst (transfer_medicine now_stage now_loc s medicine_id tr))"
  then obtain m0 where m0: "find (\<lambda>m. med_id m = medicine_id) (BLOCKCHAIN_MEDICINES s) = Some m0"
    by (auto simp: transfer_succeeded)
  then have id0: "med_id m0 = medicine_id"
    by (auto dest: find_Some_iff [THEN iffD1])
  have "reachable ?s'" using assms by (rule reachable.transfer)
  then have act: "all_active ?s'" by (rule reachable_all_active)
  have "find (\<lambda>m. med_id m = medicine_id) (BLOCKCHAIN_MEDICINES ?s') = Some (transferred medicine_id tr m0)"
    by (simp add: transfer_medicines find_update_first m0)
  then have "get_medicine ?s' medicine_id = Inr (with_names (transferred medicine_id tr m0))"
    by (simp add: get_medicine_all_active [OF act])
  then show "\<exists>m. get_medicine ?s' medicine_id = Inr m
                 \<and> med_id m = medicine_id
                 \<and> currentOwner m = toAddress tr
                 \<and> status m = status_value (newStatus tr)"
    using id0 by simp
qed

theorem transfer_then_get_medicine_witness:
  "(\<exists>m0. get_medicine (seed 0) 1 = Inr m0
         \<and> currentOwner m0 = addr_manufacturer \<and> status m0 = ''MANUFACTURED'')
   \<and> addr_manufacturer \<noteq> addr_distributor
   \<and> succeeded (fst (transfer_medicine 0 0 (seed 0) 1 example_transfer))
   \<and> (\<exists>m. get_medicine (snd (transfer_medicine 0 0 (seed 0) 1 example_transfer)) 1 = Inr m
          \<and> med_id m = 1
          \<and> currentOwner m = addr_distributor
          \<and> status m = ''SHIPPED_TO_DISTRIBUTOR'')"
proof -
  have before: "\<exists>m0. get_medicine (seed 0) 1 = Inr m0
         \<and> currentOwner m0 = addr_manufacturer \<and> status m0 = ''MANUFACTURED''"
    by (simp add: get_medicine_def seed_def seed_medicines_def)
  have ne: "addr_manufacturer \<noteq> addr_distributor"
    by (simp add: addr_manufacturer_def addr_distributor_def)
  from before have ex: "\<exists>m0. get_medicine (seed 0) 1 = Inr m0" by blast
  from transfer_then_get_medicine [OF reachable.start, of 0 0 0 1 example_transfer] ex before ne
  show ?thesis by (simp add: example_transfer_def)
qed

subsection \<open>Reading an id that is not stored\<close>

lemma get_medicine_absent:
  "find (\<lambda>m. med_id m = i \<and> isActive m) (BLOCKCHAIN_MEDICINES s) = None \<Longrightarrow>
   get_medicine s i =
     Inl (HTTPException 500 ''Blockchain query failed: 404: Medicine not found on blockchain'')"
  by (simp add: get_medicine_def py_str_int_404)

lemma get_medicine_never_404: "get_medicine s i \<noteq> Inl (HTTPException 404 d)"
  by (simp add: get_medicine_def split: option.splits)

text \<open>
  C1. \<^verbatim>\<open>get_medicine\<close> raises \<^verbatim>\<open>HTTPException(404)\<close> for an id with no active medicine,
  inside its own \<^verbatim>\<open>try\<close>; the \<^verbatim>\<open>except Exception\<close> of the route catches it and raises
  \<^verbatim>\<open>HTTPException(500)\<close> in its place. At the dataset of start-up, id 9999 is answered
  with status 500, not 404.
\<close>

theorem get_medicine_missing_id_is_500:
  "get_medicine (seed t0) 9999 =
     Inl (HTTPException 500 ''Blockchain query failed: 404: Medicine not found on blockchain'')"
  by (simp add: get_medicine_def seed_def seed_medicines_def py_str_int_404)

subsection \<open>Creation\<close>

text \<open>
  C3, as amended. Whenever \<^verbatim>\<open>datetime.fromtimestamp\<close> accepts the expiry date,
  \<^verbatim>\<open>create_medicine\<close> returns a medicine with status \<^verbatim>\<open>MANUFACTURED\<close>, \<^verbatim>\<open>isActive\<close> true,
  the current time as \<^verbatim>\<open>manufactureDate\<close> and the request's \<^verbatim>\<open>expiryDate\<close> unchanged;
  so \<^verbatim>\<open>manufactureDate \<le> expiryDate\<close> holds exactly when the requested expiry date is not
  before the current time. The route does not compare the two.
\<close>

theorem create_medicine_result:
  assumes "fromtimestamp_raises (mc_expiryDate mc) = None"
  shows "\<exists>m. fst (create_medicine fromtimestamp_raises now s mc) = Inr m
             \<and> status m = status_value MANUFACTURED
             \<and> isActive m
             \<and> manufactureDate m = now
             \<and> expiryDate m = mc_expiryDate mc
             \<and> (manufactureDate m \<le> expiryDate m) = (now \<le> mc_expiryDate mc)"
  using assms by (simp add: create_medicine_def Let_def)

theorem create_medicine_result_witness:
  "\<exists>m. fst (create_medicine (\<lambda>t. None) 1500000000 (seed 1500000000) example_create) = Inr m
       \<and> status m = ''MANUFACTURED''
       \<and> isActive m
       \<and> manufactureDate m = 1500000000
       \<and> expiryDate m = 1600000000
       \<and> manufactureDate m \<le> expiryDate m"
  using create_medicine_result [of "\<lambda>t. None" example_create 1500000000 "seed 1500000000"]
  by (simp add: example_create_def)

theorem create_medicine_expired_counterexample:
  "\<exists>m. fst (create_medicine (\<lambda>t. None) 1700000000 (seed 1700000000) example_create) = Inr m
       \<and> status m = ''MANUFACTURED''
       \<and> isActive m
       \<and> \<not> manufactureDate m \<le> expiryDate m"
  by (simp add: create_medicine_def Let_def example_create_def)

subsection \<open>Histories\<close>

text \<open>
  C8. For every state of the dataset and every id, \<^verbatim>\<open>get_temperature_history\<close> and
  \<^verbatim>\<open>get_location_history\<close> return a value list and a timestamp list of the same length,
  and the two are aligned: zipped together they are the stored entries in order.
\<close>

theorem histories_aligned:
  "(\<exists>r. get_temperature_history s medicine_id = Inr r
        \<and> length (temperatures r) = length (timestamps r)
        \<and> zip (temperatures r) (timestamps r) =
            map (\<lambda>d. (temperature d, t_timestamp d)) (entries (BLOCKCHAIN_TEMPERATURE_DATA s) medicine_id))
   \<and> (\<exists>r. get_location_history s medicine_id = Inr r
        \<and> length (locations r) = length (lh_timestamps r)
        \<and> zip (locations r) (lh_timestamps r) =
            map (\<lambda>d. (location d, l_timestamp d)) (entries (BLOCKCHAIN_LOCATION_DATA s) medicine_id))"
  by (simp add: get_temperature_history_def get_location_history_def entries_def zip_map_map
      split: option.splits) (simp add: zip_same_conv_map)

theorem histories_aligned_witness:
  "(\<exists>r. get_temperature_history (seed 0) 2 = Inr r
        \<and> length (temperatures r) = 4 \<and> length (timestamps r) = 4)
   \<and> (\<exists>r. get_location_history (seed 0) 2 = Inr r
        \<and> length (locations r) = 3 \<and> length (lh_timestamps r) = 3)"
  using histories_aligned [of "seed 0" 2]
  by (simp add: get_temperature_history_def get_location_history_def seed_def
      seed_temperature_data_def seed_location_data_def)

text \<open>
  C9. For a medicine that exists, \<^verbatim>\<open>update_temperature\<close> answers with status 400 and
  leaves the whole dataset as it was when the medicine is not temperature sensitive;
  \<^verbatim>\<open>update_location\<close> has no such condition: it succeeds and appends the location.
\<close>

theorem temperature_needs_sensitivity_location_does_not:
  assumes "find (\<lambda>m. med_id m = medicine_id) (BLOCKCHAIN_MEDICINES s) = Some m"
  shows "(\<not> temperatureSensitive m \<longrightarrow>
            (\<exists>d. fst (update_temperature now s medicine_id temp) = Inl (HTTPException 400 d))
            \<and> snd (update_temperature now s medicine_id temp) = s)
       \<and> succeeded (fst (update_location now s medicine_id loc))
       \<and> (\<exists>r. get_location_history (snd (update_location now s medicine_id loc)) medicine_id = Inr r
              \<and> locations r = map location (entries (BLOCKCHAIN_LOCATION_DATA s) medicine_id) @ [loc]
              \<and> lh_timestamps r = map l_timestamp (entries (BLOCKCHAIN_LOCATION_DATA s) medicine_id) @ [now])"
  using assms
  by (simp add: update_temperature_def update_location_def get_location_history_def Let_def)

theorem temperature_needs_sensitivity_location_does_not_witness:
  "\<not> temperatureSensitive (hd (seed_medicines 0))
   \<and> (\<exists>d. fst (update_temperature 7 (seed 0) 1 ''6C'') = Inl (HTTPException 400 d))
   \<and> snd (update_temperature 7 (seed 0) 1 ''6C'') = seed 0
   \<and> succeeded (fst (update_location 7 (seed 0) 1 ''Warehouse B''))
   \<and> (\<exists>r. get_location_history (snd (update_location 7 (seed 0) 1 ''Warehouse B'')) 1 = Inr r
          \<and> locations r = [''Manufacturing Plant A'', ''Quality Control Lab'', ''Warehouse B''])"
proof -
  have f: "find (\<lambda>m. med_id m = 1) (BLOCKCHAIN_MEDICINES (seed 0)) = Some (hd (seed_medicines 0))"
    by (simp add: seed_def seed_medicines_def)
  have n: "\<not> temperatureSensitive (hd (seed_medicines 0))"
    by (simp add: seed_medicines_def)
  have e: "map location (entries (BLOCKCHAIN_LOCATION_DATA (seed 0)) 1)
             = [''Manufacturing Plant A'', ''Quality Control Lab'']"
    by (simp add: entries_def seed_def seed_location_data_def)
  from temperature_needs_sensitivity_location_does_not [OF f, of 7 "''6C''" "''Warehouse B''"] n e
  show ?thesis by auto
qed

subsection \<open>Expiry, recall and a later transfer\<close>

lemma get_after_expire:
  assumes "all_active s" "find (\<lambda>m. med_id m = i) (BLOCKCHAIN_MEDICINES s) = Some m0"
  shows "get_medicine (snd (mark_medicine_expired s i)) i = Inr (with_names (expired i m0))"
proof -
  have "all_active (snd (mark_medicine_expired s i))"
    using assms(1) by (simp add: all_active_def expire_medicines list_all_update_first)
  then show ?thesis
    by (simp add: get_medicine_all_active expire_medicines find_update_first assms(2))
qed

lemma get_after_recall:
  assumes "all_active s" "find (\<lambda>m. med_id m = i) (BLOCKCHAIN_MEDICINES s) = Some m0"
  shows "get_medicine (snd (recall_medicine s i why)) i = Inr (with_names (recalled i m0))"
proof -
  have "all_active (snd (recall_medicine s i why))"
    using assms(1) by (simp add: all_active_def recall_medicines list_all_update_first)
  then show ?thesis
    by (simp add: get_medicine_all_active recall_medicines find_update_first assms(2))
qed

lemma get_after_transfer:
  assumes "all_active s" "find (\<lambda>m. med_id m = i) (BLOCKCHAIN_MEDICINES s) = Some m0"
  shows "get_medicine (snd (transfer_medicine t1 t2 s i tr)) i = Inr (with_names (transferred i tr m0))"
proof -
  have "all_active (snd (transfer_medicine t1 t2 s i tr))"
    using assms(1) by (simp add: all_active_def transfer_medicines list_all_update_first)
  then show ?thesis
    by (simp add: get_medicine_all_active transfer_medicines find_update_first assms(2))
qed

lemma transfer_after_update:
  assumes act: "all_active s1"
      and f: "find (\<lambda>m. med_id m = i) (BLOCKCHAIN_MEDICINES s1) = Some m1"
  shows "succeeded (fst (transfer_medicine t1 t2 s1 i tr))
       \<and> (\<exists>m. get_medicine (snd (transfer_medicine t1 t2 s1 i tr)) i = Inr m
              \<and> status m = status_value (newStatus tr))"
  using get_after_transfer [OF act f] f by (simp add: transfer_succeeded)

text \<open>
  C2, as amended. In every state the routes can produce, \<^verbatim>\<open>mark_medicine_expired\<close> sets
  the status to \<^verbatim>\<open>EXPIRED\<close> and \<^verbatim>\<open>recall_medicine\<close> sets it to \<^verbatim>\<open>RECALLED\<close>, but neither
  status is final on the mock path: a transfer of the same id that follows is accepted
  and sets the status to the one it asks for. The routes check no transition.
\<close>

theorem transfer_after_terminal_status:
  assumes "reachable s"
  shows "(succeeded (fst (mark_medicine_expired s medicine_id)) \<longrightarrow>
            (\<exists>m. get_medicine (snd (mark_medicine_expired s medicine_id)) medicine_id = Inr m
                 \<and> status m = status_value EXPIRED)
            \<and> succeeded (fst (transfer_medicine now_stage now_loc
                                 (snd (mark_medicine_expired s medicine_id)) medicine_id tr))
            \<and> (\<exists>m. get_medicine (snd (transfer_medicine now_stage now_loc
                                         (snd (mark_medicine_expired s medicine_id)) medicine_id tr))
                       medicine_id = Inr m
                 \<and> status m = status_value (newStatus tr)))
       \<and> (succeeded (fst (recall_medicine s medicine_id why)) \<longrightarrow>
            (\<exists>m. get_medicine (snd (recall_medicine s medicine_id why)) medicine_id = Inr m
                 \<and> status m = status_value RECALLED)
            \<and> succeeded (fst (transfer_medicine now_stage now_loc
                                 (snd (recall_medicine s medicine_id why)) medicine_id tr))
            \<and> (\<exists>m. get_medicine (snd (transfer_medicine now_stage now_loc
                                         (snd (recall_medicine s medicine_id why)) medicine_id tr))
                       medicine_id = Inr m
                 \<and> status m = status_value (newStatus tr)))"
proof (intro conjI impI)
  let ?P = "\<lambda>m. med_id m = medicine_id"
  have act: "all_active s" using assms by (rule reachable_all_active)
  {
    assume "succeeded (fst (mark_medicine_expired s medicine_id))"
    then obtain m0 where m0: "find ?P (BLOCKCHAIN_MEDICINES s) = Some m0"
      by (auto simp: expire_succeeded)
    let ?s1 = "snd (mark_medicine_expired s medicine_id)"
    have act1: "all_active ?s1"
      using act by (simp add: all_active_def expire_medicines list_all_update_first)
    have f1: "find ?P (BLOCKCHAIN_MEDICINES ?s1) = Some (expired medicine_id m0)"
      by (simp add: expire_medicines find_update_first m0)
    show "\<exists>m. get_medicine ?s1 medicine_id = Inr m \<and> status m = status_value EXPIRED"
      using get_after_expire [OF act m0] by simp
    show "succeeded (fst (transfer_medicine now_stage now_loc ?s1 medicine_id tr))"
      using transfer_after_update [OF act1 f1] by simp
    show "\<exists>m. get_medicine (snd (transfer_medicine now_stage now_loc ?s1 medicine_id tr)) medicine_id = Inr m
              \<and> status m = status_value (newStatus tr)"
      using transfer_after_update [OF act1 f1] by simp
  }
  {
    assume "succeeded (fst (recall_medicine s medicine_id why))"
    then obtain m0 where m0: "find ?P (BLOCKCHAIN_MEDICINES s) = Some m0"
      by (auto simp: recall_succeeded)
    let ?s1 = "snd (recall_medicine s medicine_id why)"
    have act1: "all_active ?s1"
      using act by (simp add: all_active_def recall_medicines list_all_update_first)
    have f1: "find ?P (BLOCKCHAIN_MEDICINES ?s1) = Some (recalled medicine_id m0)"
      by (simp add: recall_medicines find_update_first m0)
    show "\<exists>m. get_medicine ?s1 medicine_id = Inr m \<and> status m = status_value RECALLED"
      using get_after_recall [OF act m0] by simp
    show "succeeded (fst (transfer_medicine now_stage now_loc ?s1 medicine_id tr))"
      using transfer_after_update [OF act1 f1] by simp
    show "\<exists>m. get_medicine (snd (transfer_medicine now_stage now_loc ?s1 medicine_id tr)) medicine_id = Inr m
              \<and> status m = status_value (newStatus tr)"
      using transfer_after_update [OF act1 f1] by simp
  }
qed

lemma seed_find_1:
  "find (\<lambda>m. med_id m = 1) (BLOCKCHAIN_MEDICINES (seed t0)) = Some (hd (seed_medicines t0))"
  by (simp add: seed_def seed_medicines_def)

theorem transfer_after_terminal_status_witness:
  "succeeded (fst (mark_medicine_expired (seed 0) 1))
   \<and> succeeded (fst (recall_medicine (seed 0) 1 ''contaminated''))
   \<and> (\<exists>m. get_medicine (snd (mark_medicine_expired (seed 0) 1)) 1 = Inr m \<and> status m = ''EXPIRED'')
   \<and> (\<exists>m. get_medicine (snd (recall_medicine (seed 0) 1 ''contaminated'')) 1 = Inr m \<and> status m = ''RECALLED'')
   \<and> succeeded (fst (transfer_medicine 0 0 (snd (mark_medicine_expired (seed 0) 1)) 1 example_transfer))
   \<and> succeeded (fst (transfer_medicine 0 0 (snd (recall_medicine (seed 0) 1 ''contaminated'')) 1 example_transfer))"
proof -
  have e: "succeeded (fst (mark_medicine_expired (seed 0) 1))"
    by (simp add: expire_succeeded seed_find_1)
  have r: "succeeded (fst (recall_medicine (seed 0) 1 ''contaminated''))"
    by (simp add: recall_succeeded seed_find_1)
  from transfer_after_terminal_status [OF reachable.start, of 0 1 0 0 example_transfer "''contaminated''"] e r
  show ?thesis by simp
qed

theorem transfer_after_expired_counterexample:
  "(\<exists>m. get_medicine (snd (mark_medicine_expired (seed 0) 1)) 1 = Inr m \<and> status m = ''EXPIRED'')
   \<and> succeeded (fst (transfer_medicine 0 0 (snd (mark_medicine_expired (seed 0) 1)) 1 example_transfer))
   \<and> (\<exists>m. get_medicine (snd (transfer_medicine 0 0 (snd (mark_medicine_expired (seed 0) 1)) 1 example_transfer)) 1 = Inr m
          \<and> status m = ''SHIPPED_TO_DISTRIBUTOR'')"
proof -
  let ?s1 = "snd (mark_medicine_expired (seed 0) 1)"
  have act: "all_active (seed 0)" by (rule seed_all_active)
  have act1: "all_active ?s1"
    using act by (simp add: all_active_def expire_medicines list_all_update_first)
  have f1: "find (\<lambda>m. med_id m = 1) (BLOCKCHAIN_MEDICINES ?s1) = Some (expired 1 (hd (seed_medicines 0)))"
    by (simp add: expire_medicines find_update_first seed_find_1)
  from get_after_expire [OF act seed_find_1] transfer_after_update [OF act1 f1, of 0 0 example_transfer]
  show ?thesis by (simp add: example_transfer_def)
qed

subsection \<open>Inactive medicines\<close>

lemma find_distinct:
  "distinct (map med_id xs) \<Longrightarrow> m \<in> set xs \<Longrightarrow> find (\<lambda>x. med_id x = med_id m) xs = Some m"
  by (induction xs) (auto simp: rev_image_eqI)

lemma same_id_distinct:
  "distinct (map med_id xs) \<Longrightarrow> m \<in> set xs \<Longrightarrow> x \<in> set xs \<Longrightarrow> med_id x = med_id m \<Longrightarrow> x = m"
  by (meson distinct_map inj_onD)

lemma find_inactive_distinct:
  assumes "distinct (map med_id xs)" "m \<in> set xs" "\<not> isActive m"
  shows "find (\<lambda>x. med_id x = med_id m \<and> isActive x) xs = None"
proof -
  have "\<not> (\<exists>x. x \<in> set xs \<and> med_id x = med_id m \<and> isActive x)"
    using same_id_distinct [OF assms(1,2)] assms(3) by blast
  then show ?thesis by (simp add: find_None_iff)
qed

lemma not_listed_distinct:
  assumes "distinct (map med_id xs)" "m \<in> set xs" "\<not> isActive m"
  shows "med_id m \<notin> med_id ` set (map with_names (filter (\<lambda>x. p x \<and> isActive x) xs))"
proof
  assume "med_id m \<in> med_id ` set (map with_names (filter (\<lambda>x. p x \<and> isActive x) xs))"
  then obtain x where x: "x \<in> set xs" "isActive x" "med_id x = med_id m" by auto
  from assms(1) assms(2) x(1) x(3) have "x = m"
    by (rule same_id_distinct)
  with x(2) assms(3) show False by simp
qed

text \<open>
  C10, as amended. Take a dataset with unique ids and a medicine in it that is inactive.
  The reads leave it out: \<^verbatim>\<open>get_medicine\<close> fails, \<^verbatim>\<open>get_medicines\<close> and
  \<^verbatim>\<open>get_medicines_by_batch\<close> do not list its id. The writes find it by id alone:
  transfer, expiry, recall and location update succeed and change it;
  \<^verbatim>\<open>update_temperature\<close> succeeds exactly when it is temperature sensitive.
\<close>

theorem inactive_reads_and_writes:
  assumes "distinct (map med_id (BLOCKCHAIN_MEDICINES s))"
      and "m \<in> set (BLOCKCHAIN_MEDICINES s)"
      and "\<not> isActive m"
  shows "\<not> succeeded (get_medicine s (med_id m))
       \<and> (\<exists>ms. get_medicines s = Inr ms \<and> med_id m \<notin> med_id ` set ms)
       \<and> (\<exists>r. get_medicines_by_batch s batch_number = Inr r \<and> med_id m \<notin> med_id ` set (medicines r))
       \<and> succeeded (fst (transfer_medicine now_stage now_loc s (med_id m) tr))
       \<and> find (\<lambda>x. med_id x = med_id m)
            (BLOCKCHAIN_MEDICINES (snd (transfer_medicine now_stage now_loc s (med_id m) tr)))
          = Some (transferred (med_id m) tr m)
       \<and> succeeded (fst (mark_medicine_expired s (med_id m)))
       \<and> find (\<lambda>x. med_id x = med_id m) (BLOCKCHAIN_MEDICINES (snd (mark_medicine_expired s (med_id m))))
          = Some (expired (med_id m) m)
       \<and> succeeded (fst (recall_medicine s (med_id m) why))
       \<and> find (\<lambda>x. med_id x = med_id m) (BLOCKCHAIN_MEDICINES (snd (recall_medicine s (med_id m) why)))
          = Some (recalled (med_id m) m)
       \<and> succeeded (fst (update_location now s (med_id m) loc))
       \<and> map location (entries (BLOCKCHAIN_LOCATION_DATA (snd (update_location now s (med_id m) loc))) (med_id m))
          = map location (entries (BLOCKCHAIN_LOCATION_DATA s) (med_id m)) @ [loc]
       \<and> succeeded (fst (update_temperature now s (med_id m) temp)) = temperatureSensitive m
       \<and> (temperatureSensitive m \<longrightarrow>
            map temperature (entries (BLOCKCHAIN_TEMPERATURE_DATA (snd (update_temperature now s (med_id m) temp))) (med_id m))
            = map temperature (entries (BLOCKCHAIN_TEMPERATURE_DATA s) (med_id m)) @ [temp])"
proof -
  let ?P = "\<lambda>x. med_id x = med_id m"
  have f: "find ?P (BLOCKCHAIN_MEDICINES s) = Some m"
    using assms(1,2) by (rule find_distinct)
  have g: "find (\<lambda>x. med_id x = med_id m \<and> isActive x) (BLOCKCHAIN_MEDICINES s) = None"
    using assms by (rule find_inactive_distinct)
  have r1: "\<not> succeeded (get_medicine s (med_id m))"
    by (simp add: get_medicine_def g)
  have r2: "\<exists>ms. get_medicines s = Inr ms \<and> med_id m \<notin> med_id ` set ms"
    using not_listed_distinct [OF assms, of "\<lambda>x. True"] by (simp add: get_medicines_def)
  have r3: "\<exists>r. get_medicines_by_batch s batch_number = Inr r \<and> med_id m \<notin> med_id ` set (medicines r)"
    using not_listed_distinct [OF assms, of "\<lambda>x. batchNumber x = batch_number"]
    by (simp add: get_medicines_by_batch_def)
  have w1: "succeeded (fst (transfer_medicine now_stage now_loc s (med_id m) tr))"
    by (simp add: transfer_succeeded f)
  have w2: "find ?P (BLOCKCHAIN_MEDICINES (snd (transfer_medicine now_stage now_loc s (med_id m) tr)))
          = Some (transferred (med_id m) tr m)"
    by (simp add: transfer_medicines find_update_first f)
  have w3: "succeeded (fst (mark_medicine_expired s (med_id m)))"
    by (simp add: expire_succeeded f)
  have w4: "find ?P (BLOCKCHAIN_MEDICINES (snd (mark_medicine_expired s (med_id m)))) = Some (expired (med_id m) m)"
    by (simp add: expire_medicines find_update_first f)
  have w5: "succeeded (fst (recall_medicine s (med_id m) why))"
    by (simp add: recall_succeeded f)
  have w6: "find ?P (BLOCKCHAIN_MEDICINES (snd (recall_medicine s (med_id m) why))) = Some (recalled (med_id m) m)"
    by (simp add: recall_medicines find_update_first f)
  have w7: "succeeded (fst (update_location now s (med_id m) loc))"
    by (simp add: location_succeeded f)
  have w8: "map location (entries (BLOCKCHAIN_LOCATION_DATA (snd (update_location now s (med_id m) loc))) (med_id m))
          = map location (entries (BLOCKCHAIN_LOCATION_DATA s) (med_id m)) @ [loc]"
    by (simp add: update_location_def f Let_def entries_def)
  have w9: "succeeded (fst (update_temperature now s (med_id m) temp)) = temperatureSensitive m"
    by (simp add: temperature_succeeded f)
  have w10: "temperatureSensitive m \<longrightarrow>
            map temperature (entries (BLOCKCHAIN_TEMPERATURE_DATA (snd (update_temperature now s (med_id m) temp))) (med_id m))
            = map temperature (entries (BLOCKCHAIN_TEMPERATURE_DATA s) (med_id m)) @ [temp]"
    by (simp add: update_temperature_def f Let_def entries_def)
  from r1 r2 r3 w1 w2 w3 w4 w5 w6 w7 w8 w9 w10 show ?thesis by blast
qed

lemma seed_ids: "map med_id (seed_medicines t0) = [1, 2, 3, 4, 5]"
  by (simp add: seed_medicines_def)

lemma deactivate_ids:
  "map med_id (BLOCKCHAIN_MEDICINES (deactivate i s)) = map med_id (BLOCKCHAIN_MEDICINES s)"
  by (simp add: deactivate_def comp_def if_distrib [of med_id] cong: if_cong)

theorem inactive_reads_and_writes_witness:
  "\<not> succeeded (get_medicine (deactivate 2 (seed 0)) 2)
   \<and> succeeded (fst (transfer_medicine 0 0 (deactivate 2 (seed 0)) 2 example_transfer))
   \<and> succeeded (fst (mark_medicine_expired (deactivate 2 (seed 0)) 2))
   \<and> succeeded (fst (recall_medicine (deactivate 2 (seed 0)) 2 ''contaminated''))
   \<and> succeeded (fst (update_location 0 (deactivate 2 (seed 0)) 2 ''Warehouse B''))
   \<and> succeeded (fst (update_temperature 0 (deactivate 2 (seed 0)) 2 ''6C''))"
proof -
  let ?m = "(seed_medicines 0 ! 1)\<lparr>isActive := False\<rparr>"
  have d: "distinct (map med_id (BLOCKCHAIN_MEDICINES (deactivate 2 (seed 0))))"
    by (simp add: deactivate_ids seed_def seed_ids)
  have m: "?m \<in> set (BLOCKCHAIN_MEDICINES (deactivate 2 (seed 0)))"
    by (simp add: deactivate_def seed_def seed_medicines_def)
  have i: "\<not> isActive ?m" by simp
  have k: "med_id ?m = 2" "temperatureSensitive ?m" by (simp_all add: seed_medicines_def)
  from inactive_reads_and_writes [OF d m i, of "''x''" 0 0 example_transfer "''contaminated''" 0 "''Warehouse B''" "''6C''"] k
  show ?thesis by simp
qed

theorem inactive_temperature_counterexample:
  "(seed_medicines 0 ! 0)\<lparr>isActive := False\<rparr> \<in> set (BLOCKCHAIN_MEDICINES (deactivate 1 (seed 0)))
   \<and> \<not> succeeded (get_medicine (deactivate 1 (seed 0)) 1)
   \<and> \<not> succeeded (fst (update_temperature 0 (deactivate 1 (seed 0)) 1 ''6C''))
   \<and> snd (update_temperature 0 (deactivate 1 (seed 0)) 1 ''6C'') = deactivate 1 (seed 0)"
  by (simp add: deactivate_def seed_def seed_medicines_def get_medicine_def update_temperature_def)

subsection \<open>Ids are assigned once\<close>

lemma py_max_Max: "xs \<noteq> [] \<Longrightarrow> py_max xs = Max (set xs)"
  by (cases xs) (simp_all add: py_max_def Max.set_eq_fold [symmetric])

lemma py_max_ge: "x \<in> set xs \<Longrightarrow> x \<le> py_max xs"
  by (cases "xs = []") (simp_all add: py_max_Max)

lemma new_id_fresh: "new_id_of s \<notin> set (map med_id (BLOCKCHAIN_MEDICINES s))"
proof
  assume a: "new_id_of s \<in> set (map med_id (BLOCKCHAIN_MEDICINES s))"
  then have ne: "BLOCKCHAIN_MEDICINES s \<noteq> []" by auto
  from py_max_ge [OF a] ne show False by (simp add: new_id_of_def)
qed

lemma create_ids:
  "map med_id (BLOCKCHAIN_MEDICINES (snd (create_medicine f now s mc))) =
     (case f (mc_expiryDate mc) of
        Some msg \<Rightarrow> map med_id (BLOCKCHAIN_MEDICINES s)
      | None \<Rightarrow> map med_id (BLOCKCHAIN_MEDICINES s) @ [new_id_of s])"
  by (simp add: create_medicine_def Let_def new_id_of_def split: option.splits)

lemma create_distinct:
  "distinct (map med_id (BLOCKCHAIN_MEDICINES s)) \<Longrightarrow>
   distinct (map med_id (BLOCKCHAIN_MEDICINES (snd (create_medicine f now s mc))))"
  using new_id_fresh [of s] by (simp add: create_ids split: option.splits)

lemma reachable_distinct: "reachable s \<Longrightarrow> distinct (map med_id (BLOCKCHAIN_MEDICINES s))"
proof (induction rule: reachable.induct)
  case (start t0)
  show ?case by (simp add: seed_def seed_ids)
next
  case (create s f now mc)
  then show ?case by (simp add: create_distinct)
next
  case (transfer s t1 t2 i tr)
  then show ?case by (simp add: transfer_medicines map_med_id_update_first)
next
  case (temperature s now i t)
  then show ?case by (simp add: temperature_medicines)
next
  case (location s now i loc)
  then show ?case by (simp add: location_medicines)
next
  case (expire s i)
  then show ?case by (simp add: expire_medicines map_med_id_update_first)
next
  case (recall s i why)
  then show ?case by (simp add: recall_medicines map_med_id_update_first)
qed

text \<open>
  In every state the routes can produce, no two medicines share an id and every medicine
  is active: \<^verbatim>\<open>create_medicine\<close> picks an id above all stored ones, and no route removes
  a medicine, changes an id or clears \<^verbatim>\<open>isActive\<close>.
\<close>

theorem reachable_ids_unique_and_active:
  "reachable s \<Longrightarrow>
   distinct (map med_id (BLOCKCHAIN_MEDICINES s)) \<and> list_all isActive (BLOCKCHAIN_MEDICINES s)"
  using reachable_distinct [of s] reachable_all_active [of s] by (simp add: all_active_def)

theorem reachable_ids_unique_and_active_witness:
  "distinct (map med_id (BLOCKCHAIN_MEDICINES (snd (create_medicine (\<lambda>t. None) 0 (seed 0) example_create))))
   \<and> list_all isActive (BLOCKCHAIN_MEDICINES (snd (create_medicine (\<lambda>t. None) 0 (seed 0) example_create)))"
  using reachable_ids_unique_and_active [OF reachable.create [OF reachable.start]]
  by simp

text \<open>
  A creation on a non-empty dataset assigns the next integer after the largest id, which
  no stored medicine has.
\<close>

theorem create_assigns_next_id:
  assumes "fromtimestamp_raises (mc_expiryDate mc) = None"
      and "BLOCKCHAIN_MEDICINES s \<noteq> []"
  shows "\<exists>m. fst (create_medicine fromtimestamp_raises now s mc) = Inr m
             \<and> med_id m = Max (set (map med_id (BLOCKCHAIN_MEDICINES s))) + 1
             \<and> med_id m \<notin> set (map med_id (BLOCKCHAIN_MEDICINES s))"
proof -
  have "new_id_of s = Max (set (map med_id (BLOCKCHAIN_MEDICINES s))) + 1"
    using assms(2) by (simp add: new_id_of_def py_max_Max)
  moreover have "\<exists>m. fst (create_medicine fromtimestamp_raises now s mc) = Inr m \<and> med_id m = new_id_of s"
    using assms(1) by (simp add: create_medicine_def Let_def new_id_of_def)
  ultimately show ?thesis using new_id_fresh [of s] by auto
qed

theorem create_assigns_next_id_witness:
  "\<exists>m. fst (create_medicine (\<lambda>t. None) 0 (seed 0) example_create) = Inr m \<and> med_id m = 6"
proof -
  have ne: "BLOCKCHAIN_MEDICINES (seed 0) \<noteq> []" by (simp add: seed_def seed_medicines_def)
  have mx: "Max (set (map med_id (BLOCKCHAIN_MEDICINES (seed 0)))) = 5"
    by (simp add: seed_def seed_ids)
  from create_assigns_next_id [of "\<lambda>t. None" example_create "seed 0" 0, OF refl ne] mx
  show ?thesis by auto
qed

text \<open>
  After a temperature update that succeeded, the temperature history of that id is the
  previous one followed by the new reading and the time it was taken at.
\<close>

theorem temperature_reading_is_last:
  assumes "succeeded (fst (update_temperature now s medicine_id temp))"
  shows "\<exists>r. get_temperature_history (snd (update_temperature now s medicine_id temp)) medicine_id = Inr r
             \<and> temperatures r = map temperature (entries (BLOCKCHAIN_TEMPERATURE_DATA s) medicine_id) @ [temp]
             \<and> timestamps r = map t_timestamp (entries (BLOCKCHAIN_TEMPERATURE_DATA s) medicine_id) @ [now]"
proof -
  from assms obtain m where "find (\<lambda>m. med_id m = medicine_id) (BLOCKCHAIN_MEDICINES s) = Some m"
    and "temperatureSensitive m"
    by (auto simp: temperature_succeeded)
  then show ?thesis
    by (simp add: update_temperature_def get_temperature_history_def Let_def)
qed

theorem temperature_reading_is_last_witness:
  "succeeded (fst (update_temperature 7 (seed 0) 2 ''6C''))
   \<and> (\<exists>r. get_temperature_history (snd (update_temperature 7 (seed 0) 2 ''6C'')) 2 = Inr r
          \<and> last (temperatures r) = ''6C'' \<and> last (timestamps r) = 7)"
proof -
  have ok: "succeeded (fst (update_temperature 7 (seed 0) 2 ''6C''))"
    by (simp add: temperature_succeeded seed_def seed_medicines_def)
  from temperature_reading_is_last [OF ok] ok show ?thesis by auto
qed


section \<open>Properties of the ledger path\<close>

subsection \<open>Sequencing\<close>

lemma and_then_Inl: "m w = (Inl e, w') \<Longrightarrow> and_then m f w = (Inl e, w')"
  by (simp add: and_then_def)

lemma and_then_Inr: "m w = (Inr x, w') \<Longrightarrow> and_then m f w = f x w'"
  by (simp add: and_then_def)

lemma is_connected_log:
  "snd (snd (is_connected self env w)) = snd w \<or> snd (snd (is_connected self env w)) = snd w @ [IsConnected]"
  by (cases w) (simp add: is_connected_def split: prod.splits)

lemma check_connected_down:
  "\<not> fst (is_connected self env w) \<Longrightarrow>
   check_connected self env w = (Inl (Exception ''Not connected to blockchain''), snd (is_connected self env w))"
  by (cases "is_connected self env w") (simp add: check_connected_def)

lemma check_connected_up:
  "fst (is_connected self env w) \<Longrightarrow>
   check_connected self env w = (Inr (), snd (is_connected self env w))"
  by (cases "is_connected self env w") (simp add: check_connected_def)

lemma guard_down:
  "\<not> fst (is_connected self env w) \<Longrightarrow>
   and_then (check_connected self env) f w =
     (Inl (Exception ''Not connected to blockchain''), snd (is_connected self env w))"
  by (simp add: and_then_def check_connected_down)

lemma guard_up:
  "fst (is_connected self env w) \<Longrightarrow>
   and_then (check_connected self env) f w = f () (snd (is_connected self env w))"
  by (simp add: and_then_def check_connected_up)

lemma guarded_down:
  assumes "\<not> fst (is_connected self env w)"
  shows "not_connected_failure self env w (and_then (check_connected self env) f w)"
  using is_connected_log [of self env w]
  by (simp add: not_connected_failure_def guard_down [OF assms])

subsection \<open>The connection check\<close>

lemma get_contract_info_not_that:
  "get_contract_info self \<noteq> Inl (Exception ''Not connected to blockchain'')"
proof -
  have item_no: "\<And>v k m. item v k \<noteq> Inl (Exception m)"
  proof -
    fix v k m show "item v k \<noteq> Inl (Exception m)"
      by (cases v) (simp_all split: option.splits)
  qed
  show ?thesis
    unfolding get_contract_info_def on_value_def
    by (auto split: sum.splits simp: item_no)
qed

text \<open>
  C5, as amended. When the client is not connected (a stored flag says so, or the probe
  of the node that the check makes says so), every operation of the service but
  \<^verbatim>\<open>get_contract_info\<close> fails with \<^verbatim>\<open>Exception("Not connected to blockchain")\<close>, and the
  node has been sent nothing but that probe. \<^verbatim>\<open>get_contract_info\<close> makes no such check:
  it never fails that way, it fails with \<^verbatim>\<open>"Deployment info not available"\<close> exactly when
  the object holds no deployment descriptor, and it sends the node nothing at all.
\<close>

theorem operations_check_connection:
  assumes "\<not> fst (is_connected self env w)"
  shows "not_connected_failure self env w (get_account self env w)
       \<and> not_connected_failure self env w
           (manufacture_medicine self env nm batch_number expiry_date temperature_threshold temperature_sensitive w)
       \<and> not_connected_failure self env w (ledger_get_medicine self env medicine_id w)
       \<and> not_connected_failure self env w (ledger_get_all_medicines self env w)
       \<and> not_connected_failure self env w (ledger_get_medicines_by_batch self env batch_number w)
       \<and> not_connected_failure self env w
           (ledger_transfer_medicine self env medicine_id to_address new_status loc w)
       \<and> not_connected_failure self env w (ledger_update_temperature self env medicine_id temp w)
       \<and> not_connected_failure self env w (ledger_update_location self env medicine_id loc w)
       \<and> not_connected_failure self env w (ledger_get_temperature_history self env medicine_id w)
       \<and> not_connected_failure self env w (ledger_get_location_history self env medicine_id w)
       \<and> not_connected_failure self env w (mark_as_expired self env medicine_id w)
       \<and> not_connected_failure self env w (ledger_recall_medicine self env medicine_id why w)
       \<and> not_connected_failure self env w (get_user_role self env address w)
       \<and> get_contract_info self \<noteq> Inl (Exception ''Not connected to blockchain'')
       \<and> (get_contract_info self = Inl (Exception ''Deployment info not available''))
           = (\<not> py_bool (deployment_info self))"
proof -
  note g = guarded_down [OF assms]
  have a1: "not_connected_failure self env w (get_account self env w)"
    unfolding get_account_def by (rule g)
  have a2: "not_connected_failure self env w
           (manufacture_medicine self env nm batch_number expiry_date temperature_threshold temperature_sensitive w)"
  proof -
    have "manufacture_submit self env nm batch_number expiry_date temperature_threshold temperature_sensitive w
          = (Inl (Exception ''Not connected to blockchain''), snd (is_connected self env w))"
      unfolding manufacture_submit_def
      by (rule guard_down [OF assms])
    then show ?thesis
      using is_connected_log [of self env w]
      by (simp add: manufacture_medicine_def and_then_Inl not_connected_failure_def)
  qed
  have a3: "not_connected_failure self env w (ledger_get_medicine self env medicine_id w)"
    unfolding ledger_get_medicine_def by (rule g)
  have a4: "not_connected_failure self env w (ledger_get_all_medicines self env w)"
    unfolding ledger_get_all_medicines_def by (rule g)
  have a5: "not_connected_failure self env w (ledger_get_medicines_by_batch self env batch_number w)"
    unfolding ledger_get_medicines_by_batch_def by (rule g)
  have a6: "not_connected_failure self env w
           (ledger_transfer_medicine self env medicine_id to_address new_status loc w)"
    unfolding ledger_transfer_medicine_def by (rule g)
  have a7: "not_connected_failure self env w (ledger_update_temperature self env medicine_id temp w)"
    unfolding ledger_update_temperature_def by (rule g)
  have a8: "not_connected_failure self env w (ledger_update_location self env medicine_id loc w)"
    unfolding ledger_update_location_def by (rule g)
  have a9: "not_connected_failure self env w (ledger_get_temperature_history self env medicine_id w)"
    unfolding ledger_get_temperature_history_def by (rule g)
  have a10: "not_connected_failure self env w (ledger_get_location_history self env medicine_id w)"
    unfolding ledger_get_location_history_def by (rule g)
  have a11: "not_connected_failure self env w (mark_as_expired self env medicine_id w)"
    unfolding mark_as_expired_def by (rule g)
  have a12: "not_connected_failure self env w (ledger_recall_medicine self env medicine_id why w)"
    unfolding ledger_recall_medicine_def by (rule g)
  have a13: "not_connected_failure self env w (get_user_role self env address w)"
    unfolding get_user_role_def by (rule g)
  have item_no: "\<And>v k m. item v k \<noteq> Inl (Exception m)"
  proof -
    fix v k m show "item v k \<noteq> Inl (Exception m)"
      by (cases v) (simp_all split: option.splits)
  qed
  have a15: "(get_contract_info self = Inl (Exception ''Deployment info not available''))
           = (\<not> py_bool (deployment_info self))"
    unfolding get_contract_info_def on_value_def
    by (auto split: sum.splits simp: item_no)
  from a1 a2 a3 a4 a5 a6 a7 a8 a9 a10 a11 a12 a13 get_contract_info_not_that a15
  show ?thesis by blast
qed

subsection \<open>The example node\<close>

lemma example_is_connected [simp]:
  "is_connected example_service example_env (l, lg) = (True, (l, lg @ [IsConnected]))"
  by (simp add: is_connected_def example_service_def example_env_def)

lemma example_offline_probe [simp]:
  "is_connected example_service offline_env (l, lg) = (False, (l, lg @ [IsConnected]))"
  by (simp add: is_connected_def example_service_def example_env_def offline_env_def)

lemma offline_is_connected [simp]:
  "is_connected offline_service offline_env w = (False, w)"
  by (cases w) (simp add: is_connected_def offline_service_def)

theorem operations_check_connection_witness:
  "manufacture_medicine example_service offline_env ''Aspirin'' ''ASP001'' 1600000000 25 False ((), [])
     = (Inl (Exception ''Not connected to blockchain''), ((), [IsConnected]))
   \<and> ledger_get_medicine example_service offline_env (PInt 1) ((), [])
     = (Inl (Exception ''Not connected to blockchain''), ((), [IsConnected]))
   \<and> ledger_get_all_medicines example_service offline_env ((), [])
     = (Inl (Exception ''Not connected to blockchain''), ((), [IsConnected]))
   \<and> ledger_transfer_medicine example_service offline_env (PInt 1) addr_distributor
        ''SHIPPED_TO_DISTRIBUTOR'' ''Loading Dock A'' ((), [])
     = (Inl (Exception ''Not connected to blockchain''), ((), [IsConnected]))"
proof -
  have d: "\<not> fst (is_connected example_service offline_env ((), []))" by simp
  from operations_check_connection [OF d, where nm = "''Aspirin''" and batch_number = "''ASP001''"
      and expiry_date = 1600000000 and temperature_threshold = 25 and temperature_sensitive = False
      and medicine_id = "PInt 1" and to_address = addr_distributor
      and new_status = "''SHIPPED_TO_DISTRIBUTOR''" and loc = "''Loading Dock A''"]
  show ?thesis
    by (simp add: not_connected_failure_def prod_eq_iff)
qed

theorem get_contract_info_offline_counterexample:
  "new_BlockchainService offline_env (Loaded (Inr example_deployment)) ((), [])
     = (Inr offline_service, ((), [IsConnected]))
   \<and> \<not> fst (is_connected offline_service offline_env ((), [IsConnected]))
   \<and> get_contract_info offline_service =
       Inr (PDict
         [(''accessControlAddress'', PStr ''0x5FbDB2315678afecb367f032d93F642f64180aa3''),
          (''medicineSupplyChainAddress'', PStr ''0xe7f1725E7734CE288F8367e1Bb143E90bb3F0512''),
          (''network'', PStr ''localhost''),
          (''chainId'', PInt 1337)])"
  by (simp add: new_BlockchainService_def setup_web3_def example_env_def offline_env_def
      example_deployment_def offline_service_def contract_entry_def on_value_def Let_def
      get_contract_info_def is_connected_def)

subsection \<open>Manufacture: the event, then the fetch\<close>











lemma example_get_1:
  "ledger_get_medicine example_service example_env (PInt 1) (l, lg)
   = (Inr (Some (PDict
        [(''id'', PInt 1),
         (''name'', PStr ''Aspirin''),
         (''batchNumber'', PStr ''ASP001''),
         (''manufactureDate'', PInt 1500000000),
         (''expiryDate'', PInt 1600000000),
         (''manufacturer'', PStr addr_manufacturer),
         (''currentOwner'', PStr addr_manufacturer),
         (''status'', PStr ''MANUFACTURED''),
         (''temperatureThreshold'', PInt 25),
         (''temperatureSensitive'', PBool False),
         (''isActive'', PBool True)])),
      (l, lg @ [IsConnected, Call ''getMedicine'' [PInt 1]]))"
  by (simp add: ledger_get_medicine_def check_connected_def is_connected_def or_none_def call_def
      and_then_def contract_functions_def ret_def node_request_def pure_def decode_medicine_def
      on_value_def MedicineStatus_of_value_def all_statuses_def example_record_def
      example_env_def example_service_def)

lemma example_get_2:
  "ledger_get_medicine example_service example_env (PInt 2) (l, lg)
   = (Inr None, (l, lg @ [IsConnected, Call ''getMedicine'' [PInt 2]]))"
  by (simp add: ledger_get_medicine_def check_connected_def is_connected_def or_none_def call_def
      and_then_def contract_functions_def ret_def node_request_def pure_def
      example_env_def example_service_def)









subsection \<open>Fetching all medicines\<close>

lemma fetch_loop_count:
  "fetch_loop self env ids acc w = (Inr ms, w') \<Longrightarrow>
   length ms + misses self env ids w = length acc + length ids"
proof (induction ids arbitrary: acc w)
  case Nil
  then show ?case by (simp add: ret_def)
next
  case (Cons i ids)
  obtain r w1 where r: "ledger_get_medicine self env i w = (r, w1)"
    by (cases "ledger_get_medicine self env i w")
  show ?case
  proof (cases r)
    case (Inl e)
    with Cons.prems r show ?thesis by (simp add: and_then_def)
  next
    case (Inr medicine)
    show ?thesis
    proof (cases medicine)
      case None
      with Cons.prems r Inr have "fetch_loop self env ids acc w1 = (Inr ms, w')"
        by (simp add: and_then_def)
      from Cons.IH [OF this] r Inr None show ?thesis by simp
    next
      case (Some m)
      show ?thesis
      proof (cases "py_bool m")
        case True
        with Cons.prems r Inr Some have "fetch_loop self env ids (acc @ [m]) w1 = (Inr ms, w')"
          by (simp add: and_then_def)
        from Cons.IH [OF this] r Inr Some True show ?thesis by simp
      next
        case False
        with Cons.prems r Inr Some have "fetch_loop self env ids acc w1 = (Inr ms, w')"
          by (simp add: and_then_def)
        from Cons.IH [OF this] r Inr Some False show ?thesis by simp
      qed
    qed
  qed
qed

lemma get_medicines_count:
  "\<exists>rs. get_medicines s = Inr rs
        \<and> length rs + length (filter (\<lambda>m. \<not> isActive m) (BLOCKCHAIN_MEDICINES s)) = total_medicines s"
  by (simp add: get_medicines_def total_medicines_def sum_length_filter_compl)

text \<open>
  C4, as amended. \<^verbatim>\<open>get_all_medicines\<close> reads the total count \<open>n\<close> and then fetches the
  ids \<open>1..n\<close> in that order, keeping the fetches that gave a record: the size of its
  result and the number of fetches that gave none add up to \<open>n\<close>, so the size is at most
  the count and equals it exactly when every fetch gives a record. On the mock path
  \<^verbatim>\<open>get_medicines\<close> returns the active medicines: its size and the number of inactive
  medicines add up to the total.
\<close>

theorem get_all_size_and_count:
  assumes "ledger_get_all_medicines self env w = (Inr ms, w')"
  shows "(\<exists>count n w1.
            call env (medicine_supply_chain_contract self) ''getTotalMedicines'' []
              (snd (is_connected self env w)) = (Inr count, w1)
            \<and> py_int count = Inr n
            \<and> fetch_loop self env (map PInt [1..n]) [] w1 = (Inr ms, w')
            \<and> length ms + misses self env (map PInt [1..n]) w1 = nat n
            \<and> length ms \<le> nat n)
       \<and> (\<exists>rs. get_medicines s = Inr rs
              \<and> length rs + length (filter (\<lambda>m. \<not> isActive m) (BLOCKCHAIN_MEDICINES s))
                  = total_medicines s)"
proof
  have up: "fst (is_connected self env w)"
  proof (rule ccontr)
    assume "\<not> fst (is_connected self env w)"
    then have "fst (ledger_get_all_medicines self env w) = Inl (Exception ''Not connected to blockchain'')"
      by (simp add: ledger_get_all_medicines_def guard_down)
    with assms show False by simp
  qed
  let ?w0 = "snd (is_connected self env w)"
  obtain r w1 where c: "call env (medicine_supply_chain_contract self) ''getTotalMedicines'' [] ?w0 = (r, w1)"
    by (cases "call env (medicine_supply_chain_contract self) ''getTotalMedicines'' [] ?w0")
  have e: "ledger_get_all_medicines self env w =
             and_then (call env (medicine_supply_chain_contract self) ''getTotalMedicines'' [])
               (\<lambda>count. and_then (pure (py_int count))
                  (\<lambda>n. fetch_loop self env (id_range n) [])) ?w0"
    by (simp add: ledger_get_all_medicines_def guard_up [OF up])
  from assms c obtain t where t: "r = Inr t"
    by (cases r) (simp_all add: e and_then_def)
  from assms c t obtain n where n: "py_int t = Inr n"
    by (cases "py_int t") (simp_all add: e and_then_def pure_def)
  from assms c t n have f: "fetch_loop self env (map PInt [1..n]) [] w1 = (Inr ms, w')"
    by (simp add: e and_then_def pure_def id_range_def)
  from fetch_loop_count [OF f] have k: "length ms + misses self env (map PInt [1..n]) w1 = nat n"
    by simp
  from c t n f k show "\<exists>count n w1.
            call env (medicine_supply_chain_contract self) ''getTotalMedicines'' []
              (snd (is_connected self env w)) = (Inr count, w1)
            \<and> py_int count = Inr n
            \<and> fetch_loop self env (map PInt [1..n]) [] w1 = (Inr ms, w')
            \<and> length ms + misses self env (map PInt [1..n]) w1 = nat n
            \<and> length ms \<le> nat n"
    by auto
next
  show "\<exists>rs. get_medicines s = Inr rs
              \<and> length rs + length (filter (\<lambda>m. \<not> isActive m) (BLOCKCHAIN_MEDICINES s))
                  = total_medicines s"
    by (rule get_medicines_count)
qed

lemma example_total:
  "call example_env (medicine_supply_chain_contract example_service) ''getTotalMedicines'' [] (l, lg)
   = (Inr (PInt 2), (l, lg @ [Call ''getTotalMedicines'' []]))"
  by (simp add: call_def and_then_def contract_functions_def ret_def node_request_def
      example_env_def example_service_def)

lemma upto_1_2: "[1..2::int] = [1, 2]"
  by (simp add: upto_rec1)

lemma example_get_all:
  "ledger_get_all_medicines example_service example_env ((), [])
   = (Inr [PDict
        [(''id'', PInt 1),
         (''name'', PStr ''Aspirin''),
         (''batchNumber'', PStr ''ASP001''),
         (''manufactureDate'', PInt 1500000000),
         (''expiryDate'', PInt 1600000000),
         (''manufacturer'', PStr addr_manufacturer),
         (''currentOwner'', PStr addr_manufacturer),
         (''status'', PStr ''MANUFACTURED''),
         (''temperatureThreshold'', PInt 25),
         (''temperatureSensitive'', PBool False),
         (''isActive'', PBool True)]],
      ((), [IsConnected, Call ''getTotalMedicines'' [], IsConnected, Call ''getMedicine'' [PInt 1],
            IsConnected, Call ''getMedicine'' [PInt 2]]))"
  by (simp add: ledger_get_all_medicines_def check_connected_def and_then_def example_total pure_def
      id_range_def upto_1_2 example_get_1 example_get_2 ret_def)

theorem get_all_skips_failed_fetch_counterexample:
  "fst (call example_env (medicine_supply_chain_contract example_service) ''getTotalMedicines'' [] ((), []))
     = Inr (PInt 2)
   \<and> (\<exists>ms. fst (ledger_get_all_medicines example_service example_env ((), [])) = Inr ms \<and> length ms = 1)"
  by (simp add: example_total example_get_all)

theorem get_all_size_and_count_witness:
  "(\<exists>ms w'. ledger_get_all_medicines example_service example_env ((), []) = (Inr ms, w')
        \<and> length ms = 1
        \<and> misses example_service example_env (map PInt [1..2]) ((), [IsConnected, Call ''getTotalMedicines'' []]) = 1)
   \<and> (\<exists>rs. get_medicines (seed 0) = Inr rs \<and> length rs = 5)"
proof -
  from get_all_size_and_count [OF example_get_all, of "seed 0"]
  show ?thesis
    by (auto simp: example_total example_get_all total_medicines_def seed_def seed_medicines_def)
qed

subsection \<open>Reading one medicine from the ledger\<close>

text \<open>
  While the client is connected, \<^verbatim>\<open>get_medicine\<close> raises nothing: it returns a record
  or \<^verbatim>\<open>None\<close>, and \<^verbatim>\<open>None\<close> whenever the contract call raises.
\<close>

theorem ledger_get_medicine_returns_none_on_failure:
  assumes "fst (is_connected self env w)"
  shows "(\<exists>r. fst (ledger_get_medicine self env medicine_id w) = Inr r)
       \<and> (fst (call env (medicine_supply_chain_contract self) ''getMedicine'' [medicine_id]
                 (snd (is_connected self env w))) = Inl e
            \<longrightarrow> fst (ledger_get_medicine self env medicine_id w) = Inr None)"
proof -
  let ?w0 = "snd (is_connected self env w)"
  let ?c = "call env (medicine_supply_chain_contract self) ''getMedicine'' [medicine_id]"
  have eq: "ledger_get_medicine self env medicine_id w =
              or_none (and_then ?c (\<lambda>medicine_data. pure (decode_medicine medicine_data))) ?w0"
    by (simp add: ledger_get_medicine_def guard_up [OF assms])
  obtain r w1 where c: "?c ?w0 = (r, w1)" by (cases "?c ?w0")
  show ?thesis
  proof (cases r)
    case (Inl x)
    with c show ?thesis by (simp add: eq or_none_def and_then_def)
  next
    case (Inr d)
    with c show ?thesis
      by (cases "decode_medicine d") (simp_all add: eq or_none_def and_then_def pure_def)
  qed
qed

theorem ledger_get_medicine_returns_none_on_failure_witness:
  "fst (is_connected example_service example_env ((), []))
   \<and> fst (ledger_get_medicine example_service example_env (PInt 2) ((), [])) = Inr None"
proof -
  have c: "fst (is_connected example_service example_env ((), []))" by simp
  have f: "fst (call example_env (medicine_supply_chain_contract example_service) ''getMedicine'' [PInt 2]
                 (snd (is_connected example_service example_env ((), []))))
           = Inl (OtherError ''execution reverted'')"
    by simp
       (simp add: call_def and_then_def contract_functions_def ret_def node_request_def
         example_env_def example_service_def)
  from ledger_get_medicine_returns_none_on_failure
         [OF c, where e = "OtherError ''execution reverted''" and medicine_id = "PInt 2"] f c
  show ?thesis by simp
qed

text \<open>
  \<^verbatim>\<open>MedicineStatus(medicine_data[7])\<close> accepts the string values only. When the contract
  returns the status as an integer, the decoding raises and \<^verbatim>\<open>get_medicine\<close> returns
  \<^verbatim>\<open>None\<close>.
\<close>

lemma decode_medicine_integer_status:
  "subscript medicine_data 7 = Inr (PInt k) \<Longrightarrow> \<exists>e. decode_medicine medicine_data = Inl e"
  by (simp add: decode_medicine_def on_value_def MedicineStatus_of_value_def split: sum.splits)

end
